theory Spec2Isabelle
  imports Main "HOL-Library.Word" "HOL-Library.List_Lexorder"
begin

unbundle bit_operations_syntax

section \<open>JavaScript strings\<close>

text \<open>
  A JavaScript string is a sequence of UTF-16 code units; \<open>length\<close>, \<open>slice\<close>,
  \<open>lastIndexOf\<close> and \<open>split("")\<close> all count code units, while \<open>for (const ch of s)\<close>
  and \<open>[...s]\<close> iterate code points (a surrogate pair is one element, a two-unit string).
\<close>

type_synonym jstring = "16 word list"

definition str :: "string \<Rightarrow> jstring" where
  "str s = map (\<lambda>c. of_char c) s"

definition isHighSurrogate :: "16 word \<Rightarrow> bool" where
  "isHighSurrogate u = (0xD800 \<le> u \<and> u \<le> 0xDBFF)"

definition isLowSurrogate :: "16 word \<Rightarrow> bool" where
  "isLowSurrogate u = (0xDC00 \<le> u \<and> u \<le> 0xDFFF)"

text \<open>The string iterator: \<open>[...text]\<close>, \<open>for (const char of text)\<close>.\<close>

fun codePoints :: "jstring \<Rightarrow> jstring list" where
  "codePoints [] = []"
| "codePoints [a] = [[a]]"
| "codePoints (a # b # r) =
     (if isHighSurrogate a \<and> isLowSurrogate b then [a, b] # codePoints r
      else [a] # codePoints (b # r))"

text \<open>\<open>String(n)\<close> and template interpolation of a non-negative integer.\<close>

fun showNat :: "nat \<Rightarrow> jstring" where
  "showNat n = (if n < 10 then [of_nat (48 + n)]
                else showNat (n div 10) @ [of_nat (48 + n mod 10)])"

declare showNat.simps [simp del]

text \<open>
  \<open>text.slice(0, end)\<close> for an integer \<open>end\<close>: a negative \<open>end\<close> counts from the end
  of the string.
\<close>

definition slice0 :: "jstring \<Rightarrow> int \<Rightarrow> jstring" where
  "slice0 text e =
     (if e < 0 then take (nat (int (length text) + e)) text else take (nat e) text)"

text \<open>\<open>s.lastIndexOf(c)\<close> for a one-unit search string: \<open>-1\<close> when absent.\<close>

fun lastIndexOf :: "jstring \<Rightarrow> 16 word \<Rightarrow> int" where
  "lastIndexOf [] c = -1"
| "lastIndexOf (x # xs) c =
     (let r = lastIndexOf xs c
      in if 0 \<le> r then r + 1 else if x = c then 0 else -1)"

text \<open>White space and line terminators, as \<open>trimStart\<close> and \<open>trimEnd\<close> strip them.\<close>

definition isWhiteSpace :: "16 word \<Rightarrow> bool" where
  "isWhiteSpace u =
     (u = 0x09 \<or> u = 0x0A \<or> u = 0x0B \<or> u = 0x0C \<or> u = 0x0D \<or> u = 0x20 \<or> u = 0xA0
      \<or> u = 0x1680 \<or> (0x2000 \<le> u \<and> u \<le> 0x200A) \<or> u = 0x2028 \<or> u = 0x2029
      \<or> u = 0x202F \<or> u = 0x205F \<or> u = 0x3000 \<or> u = 0xFEFF)"

definition trimStart :: "jstring \<Rightarrow> jstring" where
  "trimStart s = dropWhile isWhiteSpace s"

definition trimEnd :: "jstring \<Rightarrow> jstring" where
  "trimEnd s = rev (dropWhile isWhiteSpace (rev s))"


section \<open>sms-chunker.ts\<close>

definition GSM7_SINGLE_LIMIT :: nat where "GSM7_SINGLE_LIMIT = 160"
definition GSM7_MULTI_LIMIT :: nat where "GSM7_MULTI_LIMIT = 153"
definition UCS2_SINGLE_LIMIT :: nat where "UCS2_SINGLE_LIMIT = 70"
definition UCS2_MULTI_LIMIT :: nat where "UCS2_MULTI_LIMIT = 67"

text \<open>The five string literals of \<open>GSM7_CHARS\<close>, as code units, in source order.\<close>

definition GSM7_ALPHABET :: jstring where
  "GSM7_ALPHABET =
     [0x40, 0xA3, 0x24, 0xA5, 0xE8, 0xE9, 0xF9, 0xEC, 0xF2, 0xC7, 0x0A, 0xD8, 0xF8, 0x0D,
      0xC5, 0xE5, 0x394, 0x5F, 0x3A6, 0x393, 0x39B, 0x3A9, 0x3A0, 0x3A8, 0x3A3, 0x398,
      0x39E, 0x20, 0xC6, 0xE6, 0xDF, 0xC9]
     @ [0x20, 0x21, 0x22, 0x23, 0xA4, 0x25, 0x26, 0x27, 0x28, 0x29, 0x2A, 0x2B, 0x2C, 0x2D,
        0x2E, 0x2F, 0x30, 0x31, 0x32, 0x33, 0x34, 0x35, 0x36, 0x37, 0x38, 0x39, 0x3A, 0x3B,
        0x3C, 0x3D, 0x3E, 0x3F]
     @ [0xA1, 0x41, 0x42, 0x43, 0x44, 0x45, 0x46, 0x47, 0x48, 0x49, 0x4A, 0x4B, 0x4C, 0x4D,
        0x4E, 0x4F, 0x50, 0x51, 0x52, 0x53, 0x54, 0x55, 0x56, 0x57, 0x58, 0x59, 0x5A]
     @ [0xC4, 0xD6, 0xD1, 0xDC, 0x61, 0x62, 0x63, 0x64, 0x65, 0x66, 0x67, 0x68, 0x69, 0x6A,
        0x6B, 0x6C, 0x6D, 0x6E, 0x6F, 0x70, 0x71, 0x72, 0x73, 0x74, 0x75, 0x76, 0x77, 0x78,
        0x79, 0x7A]
     @ [0xE4, 0xF6, 0xF1, 0xFC, 0xE0, 0xA7]"

text \<open>\<open>new Set(literal.split(""))\<close>: the set of its one-unit strings.\<close>

definition GSM7_CHARS :: "jstring list" where
  "GSM7_CHARS = map (\<lambda>u. [u]) GSM7_ALPHABET"

definition GSM7_EXTENDED :: "jstring list" where
  "GSM7_EXTENDED = [[0x7C], [0x5E], [0x20AC], [0x7B], [0x7D], [0x5B], [0x5D], [0x7E], [0x5C]]"

definition ELLIPSIS :: jstring where
  "ELLIPSIS = [0x2026]"

definition isGsm7 :: "jstring \<Rightarrow> bool" where
  "isGsm7 text =
     list_all (\<lambda>char. List.member GSM7_CHARS char \<or> List.member GSM7_EXTENDED char)
       (codePoints text)"

definition charLen :: "jstring \<Rightarrow> nat" where
  "charLen char = (if List.member GSM7_EXTENDED char then 2 else 1)"

definition gsm7Length :: "jstring \<Rightarrow> nat" where
  "gsm7Length text = foldl (\<lambda>len char. len + charLen char) 0 (codePoints text)"

datatype chunk_mode = Auto | Single | Multi

record ChunkOptions =
  mode :: chunk_mode
  maxLength :: int
  segmentNumbering :: bool

text \<open>
  The \<open>while\<close> loop of \<open>truncateToLimit\<close>: \<open>i\<close> is carried as the number of code points
  kept, \<open>chars\<close> as the code points not yet visited.
\<close>

fun truncateLoop :: "jstring list \<Rightarrow> nat \<Rightarrow> nat \<Rightarrow> nat \<Rightarrow> nat" where
  "truncateLoop [] limit len i = i"
| "truncateLoop (c # cs) limit len i =
     (if int len < int limit - 1
      then (if int (len + charLen c) > int limit - 1 then i
            else truncateLoop cs limit (len + charLen c) (i + 1))
      else i)"

definition truncateToLimit :: "jstring \<Rightarrow> nat \<Rightarrow> bool \<Rightarrow> jstring" where
  "truncateToLimit text limit gsm7 =
     (if \<not> gsm7 then slice0 text (int limit - 1) @ ELLIPSIS
      else let chars = codePoints text;
               i = truncateLoop chars limit 0 0
           in concat (take i chars) @ ELLIPSIS)"

text \<open>
  The \<open>for\<close> loop of \<open>findSplitPoint\<close> over the code points from index \<open>i\<close> on.
\<close>

fun fitLoop :: "jstring list \<Rightarrow> nat \<Rightarrow> nat \<Rightarrow> nat \<Rightarrow> nat \<Rightarrow> nat" where
  "fitLoop [] i limit len maxIdx = maxIdx"
| "fitLoop (c # cs) i limit len maxIdx =
     (if len + charLen c > limit then maxIdx
      else fitLoop cs (i + 1) limit (len + charLen c) (i + 1))"

text \<open>
  \<open>lastSpace > maxIdx * 0.3\<close> is a comparison of an integer with a double product. For
  the index ranges of a string the product is rounded to the exact value whenever that
  value is an integer, and otherwise stays strictly between the neighbouring integers, so
  the test is \<open>10 * lastSpace > 3 * maxIdx\<close> on integers.
\<close>

definition findSplitPoint :: "jstring \<Rightarrow> nat \<Rightarrow> bool \<Rightarrow> nat" where
  "findSplitPoint text limit gsm7 =
     (let maxIdx = (if \<not> gsm7 then limit else fitLoop (codePoints text) 0 limit 0 0);
          searchRegion = take maxIdx text;
          lastSpace = max (lastIndexOf searchRegion 0x20) (lastIndexOf searchRegion 0x0A)
      in if 10 * lastSpace > 3 * int maxIdx then nat (lastSpace + 1) else maxIdx)"

definition effectiveLen :: "jstring \<Rightarrow> bool \<Rightarrow> nat" where
  "effectiveLen text gsm7 = (if gsm7 then gsm7Length text else length text)"

text \<open>
  The \<open>while (remaining.length > 0)\<close> loop of \<open>splitIntoSegments\<close>. Nothing in the loop
  forces \<open>remaining\<close> to shrink (a split point of 0 leaves it as it is), so the loop is a
  partial function: \<open>None\<close> is the run that never returns.
\<close>

partial_function (option) splitLoop ::
  "jstring list \<Rightarrow> jstring \<Rightarrow> nat \<Rightarrow> bool \<Rightarrow> jstring list option" where
  "splitLoop segments remaining limit gsm7 =
     (if length remaining > 0
      then (if effectiveLen remaining gsm7 \<le> limit then Some (segments @ [remaining])
            else (let splitAt = findSplitPoint remaining limit gsm7
                  in splitLoop (segments @ [trimEnd (take splitAt remaining)])
                       (trimStart (drop splitAt remaining)) limit gsm7))
      else Some segments)"

declare splitLoop.simps [code]

definition splitIntoSegments :: "jstring \<Rightarrow> nat \<Rightarrow> bool \<Rightarrow> jstring list option" where
  "splitIntoSegments text limit gsm7 = splitLoop [] text limit gsm7"

text \<open>\<open>rawSegments.map((seg, i) => `[${i + 1}/${total}] ${seg}`)\<close>\<close>

definition numberSegment :: "nat \<Rightarrow> nat \<Rightarrow> jstring \<Rightarrow> jstring" where
  "numberSegment n i seg =
     str ''['' @ showNat (i + 1) @ str ''/'' @ showNat n @ str ''] '' @ seg"

definition addSegmentNumbering ::
  "jstring \<Rightarrow> nat \<Rightarrow> bool \<Rightarrow> nat \<Rightarrow> jstring list option" where
  "addSegmentNumbering text baseLimit gsm7 estimatedCount =
     (let digits = length (showNat estimatedCount);
          overhead = 2 + digits + 1 + digits + 2;
          effectiveLimit = int baseLimit - int overhead
      in if effectiveLimit < 20 then splitIntoSegments text baseLimit gsm7
         else (case splitIntoSegments text (nat effectiveLimit) gsm7 of
                 None \<Rightarrow> None
               | Some rawSegments \<Rightarrow>
                   Some (map (\<lambda>(i, seg). numberSegment (length rawSegments) i seg)
                          (zip [0 ..< length rawSegments] rawSegments))))"

definition chunkSms :: "jstring \<Rightarrow> ChunkOptions \<Rightarrow> jstring list option" where
  "chunkSms text options =
     (if text = [] then Some []
      else
        let truncated = (if int (length text) > maxLength options
                         then slice0 text (maxLength options) @ ELLIPSIS else text);
            gsm7 = isGsm7 truncated;
            singleLimit = (if gsm7 then GSM7_SINGLE_LIMIT else UCS2_SINGLE_LIMIT);
            multiLimit = (if gsm7 then GSM7_MULTI_LIMIT else UCS2_MULTI_LIMIT);
            effectiveLength = (if gsm7 then gsm7Length truncated else length truncated)
        in if effectiveLength \<le> singleLimit then Some [truncated]
           else if mode options = Single
           then Some [truncateToLimit truncated singleLimit gsm7]
           else (case splitIntoSegments truncated multiLimit gsm7 of
                   None \<Rightarrow> None
                 | Some segments \<Rightarrow>
                     if \<not> segmentNumbering options \<or> length segments \<le> 1
                     then Some segments
                     else addSegmentNumbering truncated multiLimit gsm7 (length segments)))"

section \<open>Values shared by the provider adapters (types.ts, base.ts)\<close>

text \<open>An exception thrown by the runtime, by its kind.\<close>

datatype js_error = TypeError | RangeError | OtherError

text \<open>
  A JSON value as \<open>JSON.parse\<close> returns it. IEEE doubles are not modelled: a number is
  kept as the token of the payload that denotes it, and the two things the adapters can do
  with one (test its truthiness, convert it with \<open>String\<close>) are supplied by the platform.
\<close>

type_synonym jsnumber = jstring

datatype json =
    JNull
  | JBool bool
  | JNum jsnumber
  | JStr jstring
  | JArr "json list"
  | JObj "(jstring \<times> json) list"

text \<open>A JavaScript value read from a payload: \<open>None\<close> is \<open>undefined\<close>.\<close>

type_synonym jsval = "json option"

text \<open>The three fields of \<open>new URL(...)\<close> that the code reads.\<close>

record url_parts =
  pathname :: jstring
  search :: jstring
  searchParams :: "(jstring \<times> jstring) list"

text \<open>
  The library functions the adapters call. They are not code of this repository, so every
  definition below takes them as a parameter and every theorem holds for all of them:
  \<^item> \<open>hmacSha1Base64 key msg\<close> is \<open>crypto.createHmac("sha1", key).update(msg).digest("base64")\<close>,
    and likewise for SHA-256;
  \<^item> \<open>ed25519Verify publicKey payload signature\<close> is the body of the \<open>try\<close> block of the
    Telnyx verifier (two base64 decodings and \<open>crypto.verify\<close>); \<open>Inl msg\<close> is an exception
    with that message;
  \<^item> \<open>newURL input base\<close> is \<open>new URL(input, base)\<close>; \<open>None\<close> is the \<open>TypeError\<close> it throws;
  \<^item> \<open>urlSearchParams body\<close> lists the pairs of \<open>new URLSearchParams(body)\<close> in order;
  \<^item> \<open>jsonParse\<close> is \<open>JSON.parse\<close>; \<open>None\<close> is the \<open>SyntaxError\<close> it throws; the objects
    it returns have distinct keys;
  \<^item> \<open>toLowerCase\<close> is \<open>String.prototype.toLowerCase\<close>;
  \<^item> \<open>numberTruthy\<close> and \<open>stringOf\<close> are truthiness of a number and \<open>String(v)\<close>.
\<close>

record platform =
  hmacSha1Base64 :: "jstring \<Rightarrow> jstring \<Rightarrow> jstring"
  hmacSha256Base64 :: "jstring \<Rightarrow> jstring \<Rightarrow> jstring"
  ed25519Verify :: "jstring \<Rightarrow> jstring \<Rightarrow> jstring \<Rightarrow> jstring + bool"
  newURL :: "jstring \<Rightarrow> jstring option \<Rightarrow> url_parts option"
  urlSearchParams :: "jstring \<Rightarrow> (jstring \<times> jstring) list"
  jsonParse :: "jstring \<Rightarrow> json option"
  toLowerCase :: "jstring \<Rightarrow> jstring"
  numberTruthy :: "jsnumber \<Rightarrow> bool"
  stringOf :: "json \<Rightarrow> jstring"

datatype ProviderName = twilio | telnyx | plivo | mock

text \<open>
  A header value is \<open>string | string[] | undefined\<close>. The field \<open>method\<close> of the context
  is \<open>httpMethod\<close> here, and the fields \<open>from\<close> and \<open>to\<close> of an inbound event are
  \<open>sender\<close> and \<open>recipient\<close>: the source's names are keywords of the theory language.
\<close>

datatype header_value = HStr jstring | HArr "jstring list"

record WebhookContext =
  headers :: "jstring \<Rightarrow> header_value option"
  rawBody :: jstring
  url :: jstring
  httpMethod :: jstring
  query :: "(jstring \<times> jstring) list"
  remoteAddress :: "jstring option"

datatype WebhookVerificationResult = VerifyOk | VerifyFailed (reason: jstring)

datatype MessageStatus = queued | sending | sent | delivered | undelivered | failed | unknown

text \<open>
  A number as \<open>parseInt\<close> returns it: \<open>NaN\<close>, an infinity, minus zero, or a double whose
  value is an integer (\<open>Num\<close>, with plus zero as \<open>Num 0\<close>).
\<close>

datatype jsnum = NaN | Num int | MinusZero | PlusInfinity | MinusInfinity

text \<open>
  The event union. The adapters differ in what they put into a field (the Twilio adapter
  always a string, the JSON adapters any value of the payload), so the field type is a
  parameter.
\<close>

datatype 'v NormalizedSmsEvent =
    InboundSms (messageId: 'v) (sender: 'v) (recipient: 'v) (body: 'v) (timestamp: int)
      (mediaUrls: "'v list option") (numSegments: "jsnum option")
  | DeliveryStatus (messageId: 'v) (status: MessageStatus) (errorCode: "'v option")
      (errorMessage: "'v option") (timestamp: int)
  | SmsError (messageIdOpt: "'v option") (smsErrorCode: 'v) (smsErrorMessage: 'v)
      (timestamp: int)

record 'v InboundSmsParseResult =
  events :: "'v NormalizedSmsEvent list"
  statusCode :: "nat option"
  responseBody :: "jstring option"
  responseHeaders :: "(jstring \<times> jstring) list option"

subsection \<open>Language built-ins\<close>

text \<open>Truthiness of \<open>string | null | undefined\<close> and of a payload value.\<close>

definition truthyStr :: "jstring option \<Rightarrow> bool" where
  "truthyStr v = (case v of None \<Rightarrow> False | Some s \<Rightarrow> s \<noteq> [])"

fun truthyJson :: "platform \<Rightarrow> json \<Rightarrow> bool" where
  "truthyJson P JNull = False"
| "truthyJson P (JBool b) = b"
| "truthyJson P (JNum n) = numberTruthy P n"
| "truthyJson P (JStr s) = (s \<noteq> [])"
| "truthyJson P (JArr xs) = True"
| "truthyJson P (JObj kv) = True"

definition truthy :: "platform \<Rightarrow> jsval \<Rightarrow> bool" where
  "truthy P v = (case v of None \<Rightarrow> False | Some j \<Rightarrow> truthyJson P j)"

text \<open>\<open>a || b\<close> on strings that may be \<open>null\<close>, and \<open>a || ""\<close>.\<close>

definition orStr :: "jstring option \<Rightarrow> jstring option \<Rightarrow> jstring option" where
  "orStr a b = (if truthyStr a then a else b)"

definition orEmpty :: "jstring option \<Rightarrow> jstring" where
  "orEmpty a = (case a of None \<Rightarrow> [] | Some s \<Rightarrow> s)"

text \<open>\<open>a || b\<close> on payload values, and \<open>a || "literal"\<close>.\<close>

definition orVal :: "platform \<Rightarrow> jsval \<Rightarrow> jsval \<Rightarrow> jsval" where
  "orVal P a b = (if truthy P a then a else b)"

definition orDefault :: "platform \<Rightarrow> jsval \<Rightarrow> json \<Rightarrow> json" where
  "orDefault P a d = (case a of None \<Rightarrow> d | Some j \<Rightarrow> if truthyJson P j then j else d)"

text \<open>
  \<open>v.name\<close> for a property name that no prototype defines (none of the names the adapters
  read is inherited): a \<open>TypeError\<close> on \<open>null\<close> and \<open>undefined\<close>, the own property of an
  object, \<open>undefined\<close> on every other value. \<open>v?.name\<close> is \<open>undefined\<close> where \<open>v.name\<close>
  throws.
\<close>

fun getProp :: "jsval \<Rightarrow> jstring \<Rightarrow> js_error + jsval" where
  "getProp None name = Inl TypeError"
| "getProp (Some JNull) name = Inl TypeError"
| "getProp (Some (JObj kv)) name = Inr (map_of kv name)"
| "getProp (Some v) name = Inr None"

definition optProp :: "jsval \<Rightarrow> jstring \<Rightarrow> jsval" where
  "optProp v name = (case getProp v name of Inl e \<Rightarrow> None | Inr r \<Rightarrow> r)"

text \<open>\<open>v?.[0]\<close>: the first element of an array, the first code unit of a string.\<close>

fun optIndex0 :: "jsval \<Rightarrow> jsval" where
  "optIndex0 (Some (JArr xs)) = (case xs of [] \<Rightarrow> None | x # r \<Rightarrow> Some x)"
| "optIndex0 (Some (JStr s)) = (case s of [] \<Rightarrow> None | u # r \<Rightarrow> Some (JStr [u]))"
| "optIndex0 (Some (JObj kv)) = map_of kv (str ''0'')"
| "optIndex0 v = None"

text \<open>Truthiness of \<open>v?.length\<close>.\<close>

fun lengthTruthy :: "platform \<Rightarrow> jsval \<Rightarrow> bool" where
  "lengthTruthy P (Some (JArr xs)) = (xs \<noteq> [])"
| "lengthTruthy P (Some (JStr s)) = (s \<noteq> [])"
| "lengthTruthy P (Some (JObj kv)) = truthy P (map_of kv (str ''length''))"
| "lengthTruthy P v = False"

text \<open>
  The double nearest to a natural number, ties to the even significand; \<open>None\<close> is the
  overflow to infinity. Below \<open>2^53\<close> every natural number is a double.
\<close>

fun bitLength :: "nat \<Rightarrow> nat" where
  "bitLength n = (if n = 0 then 0 else Suc (bitLength (n div 2)))"

declare bitLength.simps [simp del]

definition roundToDouble :: "nat \<Rightarrow> nat option" where
  "roundToDouble n =
     (if n < 2 ^ 53 then Some n
      else
        let e = bitLength n - 53;
            q = n div 2 ^ e;
            r = n mod 2 ^ e;
            q' = (if 2 * r > 2 ^ e \<or> (2 * r = 2 ^ e \<and> odd q) then q + 1 else q)
        in if q' * 2 ^ e \<ge> 2 ^ 1024 then None else Some (q' * 2 ^ e))"

text \<open>
  \<open>parseInt(s, 10)\<close>: leading white space, an optional sign, then the longest run of
  decimal digits, read as the nearest double; \<open>NaN\<close> when there is no digit.
\<close>

definition isDigit :: "16 word \<Rightarrow> bool" where
  "isDigit u = (0x30 \<le> u \<and> u \<le> 0x39)"

definition digitsValue :: "jstring \<Rightarrow> nat" where
  "digitsValue ds = foldl (\<lambda>acc u. 10 * acc + (unat u - 48)) 0 ds"

definition parseDigits :: "bool \<Rightarrow> jstring \<Rightarrow> jsnum" where
  "parseDigits negative s =
     (let ds = takeWhile isDigit s
      in if ds = [] then NaN
         else (case roundToDouble (digitsValue ds) of
                 None \<Rightarrow> if negative then MinusInfinity else PlusInfinity
               | Some v \<Rightarrow>
                   if negative then (if v = 0 then MinusZero else Num (- int v))
                   else Num (int v)))"

definition parseInt10 :: "jstring \<Rightarrow> jsnum" where
  "parseInt10 s =
     (case trimStart s of
        [] \<Rightarrow> NaN
      | u # r \<Rightarrow>
          if u = 0x2D then parseDigits True r
          else if u = 0x2B then parseDigits False r
          else parseDigits False (u # r))"

text \<open>Interpolation of an integer into a template string.\<close>

definition showInt :: "int \<Rightarrow> jstring" where
  "showInt i = (if i < 0 then 0x2D # showNat (nat (- i)) else showNat (nat i))"

text \<open>\<open>s.includes(t)\<close> and \<open>s.startsWith(p)\<close> on strings, \<open>s.split(",")\<close>, \<open>s.trim()\<close>.\<close>

fun includesStr :: "jstring \<Rightarrow> jstring \<Rightarrow> bool" where
  "includesStr [] t = (t = [])"
| "includesStr (x # xs) t = (take (length t) (x # xs) = t \<or> includesStr xs t)"

definition startsWith :: "jstring \<Rightarrow> jstring \<Rightarrow> bool" where
  "startsWith s p = (take (length p) s = p)"

fun splitOn :: "16 word \<Rightarrow> jstring \<Rightarrow> jstring list" where
  "splitOn c [] = [[]]"
| "splitOn c (x # xs) =
     (if x = c then [] # splitOn c xs
      else (case splitOn c xs of [] \<Rightarrow> [[x]] | p # ps \<Rightarrow> (x # p) # ps))"

definition trim :: "jstring \<Rightarrow> jstring" where
  "trim s = trimEnd (trimStart s)"

text \<open>
  \<open>Buffer.from(s)\<close>: the UTF-8 bytes of the string, a lone surrogate encoded as U+FFFD.
\<close>

fun utf8CodePoint :: "jstring \<Rightarrow> 8 word list" where
  "utf8CodePoint [u] =
     (if isHighSurrogate u \<or> isLowSurrogate u then [0xEF, 0xBF, 0xBD]
      else if u < 0x80 then [ucast u]
      else if u < 0x800 then [0xC0 OR ucast (drop_bit 6 u), 0x80 OR ucast (u AND 0x3F)]
      else [0xE0 OR ucast (drop_bit 12 u), 0x80 OR ucast (drop_bit 6 u AND 0x3F),
            0x80 OR ucast (u AND 0x3F)])"
| "utf8CodePoint [h, l] =
     (let c = (0x10000 :: 32 word) + push_bit 10 (ucast (h - 0xD800)) + ucast (l - 0xDC00)
      in [0xF0 OR ucast (drop_bit 18 c), 0x80 OR ucast (drop_bit 12 c AND 0x3F),
          0x80 OR ucast (drop_bit 6 c AND 0x3F), 0x80 OR ucast (c AND 0x3F)])"
| "utf8CodePoint cs = []"

definition bufferFrom :: "jstring \<Rightarrow> 8 word list" where
  "bufferFrom s = concat (map utf8CodePoint (codePoints s))"

text \<open>
  \<open>crypto.timingSafeEqual(a, b)\<close> throws a \<open>RangeError\<close> when the byte lengths differ.
\<close>

definition timingSafeEqual :: "8 word list \<Rightarrow> 8 word list \<Rightarrow> js_error + bool" where
  "timingSafeEqual a b = (if length a \<noteq> length b then Inl RangeError else Inr (a = b))"

text \<open>A header that is present, a string, and not empty: the negation of
  \<open>!h || typeof h !== "string"\<close>.\<close>

definition stringHeader :: "WebhookContext \<Rightarrow> jstring \<Rightarrow> jstring option" where
  "stringHeader ctx name =
     (case headers ctx name of
        Some (HStr s) \<Rightarrow> if s \<noteq> [] then Some s else None
      | _ \<Rightarrow> None)"

text \<open>
  The URL that was signed, in the Twilio and Plivo verifiers:
  \<open>publicUrl ? publicUrl + new URL(ctx.url).pathname + new URL(ctx.url).search : ctx.url\<close>.
\<close>

definition signedUrl :: "platform \<Rightarrow> jstring option \<Rightarrow> WebhookContext \<Rightarrow> js_error + jstring" where
  "signedUrl P publicUrl ctx =
     (if truthyStr publicUrl
      then (case newURL P (url ctx) None of
              None \<Rightarrow> Inl TypeError
            | Some u \<Rightarrow> Inr (orEmpty publicUrl @ pathname u @ search u))
      else Inr (url ctx))"

section \<open>providers/twilio.ts\<close>

record TwilioProviderOptions =
  accountSid :: jstring
  authToken :: jstring
  messagingServiceSid :: "jstring option"
  publicUrl :: "jstring option"
  skipSignatureVerification :: "bool option"

text \<open>\<open>params.get(key)\<close>: the first value of the key, or \<open>null\<close>.\<close>

definition paramsGet :: "(jstring \<times> jstring) list \<Rightarrow> jstring \<Rightarrow> jstring option" where
  "paramsGet params key = map_of params key"

definition mapTwilioStatus :: "platform \<Rightarrow> jstring \<Rightarrow> MessageStatus" where
  "mapTwilioStatus P st =
     (let s = toLowerCase P st
      in if s = str ''queued'' \<or> s = str ''accepted'' then queued
         else if s = str ''sending'' then sending
         else if s = str ''sent'' then sent
         else if s = str ''delivered'' then delivered
         else if s = str ''undelivered'' then undelivered
         else if s = str ''failed'' then failed
         else unknown)"

text \<open>
  The signing string: the URL, then \<open>key + params.get(key)\<close> for every key of
  \<open>[...params.keys()].sort()\<close> (a repeated key is listed once per occurrence).
\<close>

definition twilioSigningString :: "jstring \<Rightarrow> (jstring \<times> jstring) list \<Rightarrow> jstring" where
  "twilioSigningString u params =
     foldl (\<lambda>signingString key. signingString @ key @ orEmpty (paramsGet params key))
       u (sort (map fst params))"

definition twilioVerifyWebhook ::
  "platform \<Rightarrow> TwilioProviderOptions \<Rightarrow> WebhookContext \<Rightarrow> js_error + WebhookVerificationResult"
where
  "twilioVerifyWebhook P opts ctx =
     (if skipSignatureVerification opts = Some True then Inr VerifyOk
      else
        case stringHeader ctx (str ''x-twilio-signature'') of
          None \<Rightarrow> Inr (VerifyFailed (str ''Missing X-Twilio-Signature header''))
        | Some signature \<Rightarrow>
            (case signedUrl P (publicUrl opts) ctx of
               Inl e \<Rightarrow> Inl e
             | Inr u \<Rightarrow>
                 let params = urlSearchParams P (rawBody ctx);
                     expected = hmacSha1Base64 P (authToken opts) (twilioSigningString u params)
                 in if length expected \<noteq> length signature
                    then Inr (VerifyFailed (str ''Signature mismatch''))
                    else (case timingSafeEqual (bufferFrom expected) (bufferFrom signature) of
                            Inl e \<Rightarrow> Inl e
                          | Inr valid \<Rightarrow>
                              if \<not> valid then Inr (VerifyFailed (str ''Signature mismatch''))
                              else Inr VerifyOk)))"

text \<open>
  The media loop \<open>for (let i = 0; i < numMedia; i++)\<close>. The counter is a double: \<open>i++\<close>
  is exact below \<open>2^53\<close>, and at \<open>2^53\<close> the sum rounds back to \<open>2^53\<close>, so the counter
  stays there. A loop that does not return is \<open>None\<close>.
\<close>

definition lessNum :: "nat \<Rightarrow> jsnum \<Rightarrow> bool" where
  "lessNum i n =
     (case n of NaN \<Rightarrow> False | Num m \<Rightarrow> int i < m | MinusZero \<Rightarrow> False
      | PlusInfinity \<Rightarrow> True | MinusInfinity \<Rightarrow> False)"

text \<open>The counter starts at 0, so it is never above \<open>2^53\<close>.\<close>

definition increment :: "nat \<Rightarrow> nat" where
  "increment i = (if i < 2 ^ 53 then i + 1 else i)"

definition pushMediaUrl ::
  "(jstring \<times> jstring) list \<Rightarrow> nat \<Rightarrow> jstring list \<Rightarrow> jstring list" where
  "pushMediaUrl params i urls =
     (case paramsGet params (str ''MediaUrl'' @ showNat i) of
        None \<Rightarrow> urls
      | Some u \<Rightarrow> if u \<noteq> [] then urls @ [u] else urls)"

partial_function (option) twilioMediaLoop ::
  "(jstring \<times> jstring) list \<Rightarrow> jsnum \<Rightarrow> nat \<Rightarrow> jstring list \<Rightarrow> jstring list option" where
  "twilioMediaLoop params numMedia i urls =
     (if lessNum i numMedia
      then twilioMediaLoop params numMedia (increment i) (pushMediaUrl params i urls)
      else Some urls)"

declare twilioMediaLoop.simps [code]

definition twilioAckHeaders :: "(jstring \<times> jstring) list" where
  "twilioAckHeaders = [(str ''Content-Type'', str ''application/xml'')]"

definition twilioParseInboundSms ::
  "platform \<Rightarrow> WebhookContext \<Rightarrow> (nat \<Rightarrow> int)
     \<Rightarrow> jstring InboundSmsParseResult option"
where
  "twilioParseInboundSms P ctx clock =
     (let params = urlSearchParams P (rawBody ctx);
          messageSid = orStr (paramsGet params (str ''MessageSid''))
                         (paramsGet params (str ''SmsSid''));
          from = orEmpty (paramsGet params (str ''From''));
          to = orEmpty (paramsGet params (str ''To''));
          body = orEmpty (paramsGet params (str ''Body''));
          messageStatus = orStr (paramsGet params (str ''MessageStatus''))
                            (paramsGet params (str ''SmsStatus''));
          numSegments = paramsGet params (str ''NumSegments'')
      in if truthyStr messageStatus \<and> body = [] \<and> truthyStr messageSid
         then Some \<lparr>events =
                  [DeliveryStatus (orEmpty messageSid)
                     (mapTwilioStatus P (orEmpty messageStatus))
                     (orStr (paramsGet params (str ''ErrorCode'')) None)
                     (orStr (paramsGet params (str ''ErrorMessage'')) None)
                     (clock 0)],
                statusCode = Some 200,
                responseBody = Some (str ''<Response></Response>''),
                responseHeaders = Some twilioAckHeaders\<rparr>
         else if \<not> truthyStr messageSid
         then Some \<lparr>events = [], statusCode = Some 200,
                responseBody = Some (str ''<Response></Response>''),
                responseHeaders = None\<rparr>
         else
           let numMedia = parseInt10
                 (orEmpty (orStr (paramsGet params (str ''NumMedia'')) (Some (str ''0''))))
           in (case twilioMediaLoop params numMedia 0 [] of
                 None \<Rightarrow> None
               | Some urls \<Rightarrow>
                   Some \<lparr>events =
                     [InboundSms (orEmpty messageSid) from to body (clock 0)
                        (if length urls > 0 then Some urls else None)
                        (if truthyStr numSegments
                         then Some (parseInt10 (orEmpty numSegments)) else None)],
                     statusCode = Some 200,
                     responseBody = Some (str ''<Response></Response>''),
                     responseHeaders = Some twilioAckHeaders\<rparr>))"

section \<open>providers/telnyx.ts\<close>

record TelnyxProviderOptions =
  apiKey :: jstring
  messagingProfileId :: "jstring option"
  publicKey :: "jstring option"
  skipSignatureVerification :: "bool option"

definition mapTelnyxStatus :: "jstring \<Rightarrow> MessageStatus" where
  "mapTelnyxStatus eventType =
     (if eventType = str ''message.sent'' then sent
      else if eventType = str ''message.delivered'' then delivered
      else if eventType = str ''message.failed'' then failed
      else unknown)"

definition mapTelnyxSendStatus :: "jstring option \<Rightarrow> MessageStatus" where
  "mapTelnyxSendStatus st =
     (if st = Some (str ''queued'') then queued
      else if st = Some (str ''sending'') then sending
      else if st = Some (str ''sent'') then sent
      else if st = Some (str ''delivered'') then delivered
      else queued)"

text \<open>
  \<open>Math.abs(Date.now() - tsMs) > 5 * 60 * 1000\<close> with \<open>tsMs = parseInt(timestamp, 10) * 1000\<close>
  and \<open>now\<close> the reading of \<open>Date.now()\<close>; \<open>integerValue\<close> is the integer a finite number
  stands for. With a timestamp that \<open>parseInt\<close> cannot read,
  \<open>tsMs\<close> is \<open>NaN\<close> and the comparison is false; with an infinite one it is true. The
  product and the difference are taken exactly; the runtime rounds them to doubles, which
  does not change the comparison while the clock is in the range of a \<open>Date\<close>.
\<close>

definition integerValue :: "jsnum \<Rightarrow> int option" where
  "integerValue x =
     (case x of
        NaN \<Rightarrow> None | Num t \<Rightarrow> Some t | MinusZero \<Rightarrow> Some 0
      | PlusInfinity \<Rightarrow> None | MinusInfinity \<Rightarrow> None)"

definition telnyxStale :: "int \<Rightarrow> jsnum \<Rightarrow> bool" where
  "telnyxStale now seconds =
     (case seconds of
        NaN \<Rightarrow> False
      | Num t \<Rightarrow> \<bar>now - t * 1000\<bar> > 5 * 60 * 1000
      | MinusZero \<Rightarrow> \<bar>now - 0 * 1000\<bar> > 5 * 60 * 1000
      | PlusInfinity \<Rightarrow> True
      | MinusInfinity \<Rightarrow> True)"

definition telnyxVerifyWebhook ::
  "platform \<Rightarrow> TelnyxProviderOptions \<Rightarrow> WebhookContext \<Rightarrow> int
     \<Rightarrow> js_error + WebhookVerificationResult"
where
  "telnyxVerifyWebhook P opts ctx now =
     (if TelnyxProviderOptions.skipSignatureVerification opts = Some True then Inr VerifyOk
      else if \<not> truthyStr (publicKey opts)
      then Inr (VerifyFailed (str ''No Telnyx public key configured for verification''))
      else
        case stringHeader ctx (str ''telnyx-signature-ed25519'') of
          None \<Rightarrow> Inr (VerifyFailed (str ''Missing telnyx-signature-ed25519 header''))
        | Some signature \<Rightarrow>
            (case stringHeader ctx (str ''telnyx-timestamp'') of
               None \<Rightarrow> Inr (VerifyFailed (str ''Missing telnyx-timestamp header''))
             | Some ts \<Rightarrow>
                 if telnyxStale now (parseInt10 ts)
                    then Inr (VerifyFailed (str ''Webhook timestamp too old''))
                    else
                      (case ed25519Verify P (orEmpty (publicKey opts))
                              (ts @ str ''|'' @ rawBody ctx) signature of
                         Inl msg \<Rightarrow> Inr (VerifyFailed (str ''Verification error: '' @ msg))
                       | Inr valid \<Rightarrow>
                           if \<not> valid then Inr (VerifyFailed (str ''Signature mismatch''))
                           else Inr VerifyOk)))"

text \<open>
  The loop \<open>for (const m of messagePayload.media) if (m.url) mediaUrls.push(m.url)\<close>,
  entered when \<open>media?.length\<close> is truthy: an array yields its elements, a string its code
  points (none of which has a \<open>url\<close>), and any other value is not iterable.
\<close>

fun telnyxMediaLoop :: "platform \<Rightarrow> json list \<Rightarrow> js_error + json list" where
  "telnyxMediaLoop P [] = Inr []"
| "telnyxMediaLoop P (m # ms) =
     (case getProp (Some m) (str ''url'') of
        Inl e \<Rightarrow> Inl e
      | Inr u \<Rightarrow>
          (case telnyxMediaLoop P ms of
             Inl e \<Rightarrow> Inl e
           | Inr r \<Rightarrow>
               (case u of
                  None \<Rightarrow> Inr r
                | Some j \<Rightarrow> if truthyJson P j then Inr (j # r) else Inr r)))"

definition telnyxMediaUrls :: "platform \<Rightarrow> jsval \<Rightarrow> js_error + json list" where
  "telnyxMediaUrls P media =
     (if lengthTruthy P media
      then (case media of
              Some (JArr ms) \<Rightarrow> telnyxMediaLoop P ms
            | Some (JStr s) \<Rightarrow> Inr []
            | _ \<Rightarrow> Inl TypeError)
      else Inr [])"

definition telnyxEmptyAck :: "json InboundSmsParseResult" where
  "telnyxEmptyAck =
     \<lparr>events = [], statusCode = Some 200, responseBody = Some [], responseHeaders = None\<rparr>"

definition telnyxParseInboundSms ::
  "platform \<Rightarrow> WebhookContext \<Rightarrow> (nat \<Rightarrow> int) \<Rightarrow> js_error + json InboundSmsParseResult"
where
  "telnyxParseInboundSms P ctx clock =
     (case jsonParse P (rawBody ctx) of
        None \<Rightarrow> Inr \<lparr>events = [], statusCode = Some 400,
                       responseBody = Some (str ''Invalid JSON''), responseHeaders = None\<rparr>
      | Some payload \<Rightarrow>
          (case getProp (Some payload) (str ''data'') of
             Inl e \<Rightarrow> Inl e
           | Inr data \<Rightarrow>
               if \<not> truthy P data then Inr telnyxEmptyAck
               else
                 let eventType = optProp data (str ''event_type'');
                     messagePayload = optProp data (str ''payload'')
                 in if eventType = Some (JStr (str ''message.sent''))
                       \<or> eventType = Some (JStr (str ''message.delivered''))
                       \<or> eventType = Some (JStr (str ''message.failed''))
                    then
                      let firstError = optIndex0 (optProp messagePayload (str ''errors''))
                      in Inr \<lparr>events =
                           [DeliveryStatus
                              (orDefault P
                                 (orVal P (optProp messagePayload (str ''id''))
                                    (optProp data (str ''id'')))
                                 (JStr []))
                              (mapTelnyxStatus
                                 (case eventType of Some (JStr s) \<Rightarrow> s | _ \<Rightarrow> []))
                              (optProp firstError (str ''code''))
                              (optProp firstError (str ''title''))
                              (clock 0)],
                           statusCode = Some 200, responseBody = Some [],
                           responseHeaders = None\<rparr>
                    else if eventType = Some (JStr (str ''message.received''))
                    then
                      if \<not> truthy P messagePayload then Inr telnyxEmptyAck
                      else
                        (case telnyxMediaUrls P (optProp messagePayload (str ''media'')) of
                           Inl e \<Rightarrow> Inl e
                         | Inr urls \<Rightarrow>
                             Inr \<lparr>events =
                               [InboundSms
                                  (orDefault P
                                     (orVal P (optProp data (str ''id''))
                                        (optProp messagePayload (str ''id'')))
                                     (JStr []))
                                  (orDefault P
                                     (optProp (optProp messagePayload (str ''from''))
                                        (str ''phone_number''))
                                     (JStr []))
                                  (orDefault P
                                     (optProp
                                        (optIndex0 (optProp messagePayload (str ''to'')))
                                        (str ''phone_number''))
                                     (JStr []))
                                  (orDefault P (optProp messagePayload (str ''text''))
                                     (JStr []))
                                  (clock 0)
                                  (if length urls > 0 then Some urls else None)
                                  None],
                               statusCode = Some 200, responseBody = Some [],
                               responseHeaders = None\<rparr>)
                    else Inr telnyxEmptyAck))"

section \<open>providers/plivo.ts\<close>

record PlivoProviderOptions =
  authId :: jstring
  authToken :: jstring
  skipSignatureVerification :: "bool option"
  publicUrl :: "jstring option"

definition mapPlivoStatus :: "platform \<Rightarrow> jstring \<Rightarrow> MessageStatus" where
  "mapPlivoStatus P st =
     (let s = toLowerCase P st
      in if s = str ''queued'' then queued
         else if s = str ''sent'' then sent
         else if s = str ''delivered'' then delivered
         else if s = str ''undelivered'' then undelivered
         else if s = str ''failed'' \<or> s = str ''rejected'' then failed
         else unknown)"

text \<open>
  \<open>mapPlivoStatus(status)\<close> as the parser calls it, on whatever value \<open>body.Status\<close>
  holds: \<open>status.toLowerCase\<close> is a function on strings only.
\<close>

definition mapPlivoStatusValue :: "platform \<Rightarrow> json \<Rightarrow> js_error + MessageStatus" where
  "mapPlivoStatusValue P v =
     (case v of JStr s \<Rightarrow> Inr (mapPlivoStatus P s) | _ \<Rightarrow> Inl TypeError)"

definition plivoVerifyWebhook ::
  "platform \<Rightarrow> PlivoProviderOptions \<Rightarrow> WebhookContext \<Rightarrow> js_error + WebhookVerificationResult"
where
  "plivoVerifyWebhook P opts ctx =
     (if PlivoProviderOptions.skipSignatureVerification opts = Some True then Inr VerifyOk
      else
        case stringHeader ctx (str ''x-plivo-signature-v3'') of
          None \<Rightarrow> Inr (VerifyFailed (str ''Missing X-Plivo-Signature-V3 header''))
        | Some signature \<Rightarrow>
            (case stringHeader ctx (str ''x-plivo-signature-v3-nonce'') of
               None \<Rightarrow> Inr (VerifyFailed (str ''Missing X-Plivo-Signature-V3-Nonce header''))
             | Some nonce \<Rightarrow>
                 (case signedUrl P (PlivoProviderOptions.publicUrl opts) ctx of
                    Inl e \<Rightarrow> Inl e
                  | Inr u \<Rightarrow>
                      let signingString = u @ nonce @ rawBody ctx;
                          expected = hmacSha256Base64 P (PlivoProviderOptions.authToken opts)
                                       signingString
                      in if length expected \<noteq> length signature
                         then Inr (VerifyFailed (str ''Signature mismatch''))
                         else (case timingSafeEqual (bufferFrom expected)
                                      (bufferFrom signature) of
                                 Inl e \<Rightarrow> Inl e
                               | Inr valid \<Rightarrow>
                                   if \<not> valid
                                   then Inr (VerifyFailed (str ''Signature mismatch''))
                                   else Inr VerifyOk))))"

text \<open>
  \<open>(ctx.headers["content-type"] || "").includes("application/json")\<close>: a substring test
  on a string, a membership test on an array of strings.
\<close>

definition plivoIsJson :: "WebhookContext \<Rightarrow> bool" where
  "plivoIsJson ctx =
     (case headers ctx (str ''content-type'') of
        None \<Rightarrow> False
      | Some (HStr s) \<Rightarrow> includesStr s (str ''application/json'')
      | Some (HArr xs) \<Rightarrow> List.member xs (str ''application/json''))"

text \<open>The five variables the first \<open>if\<close> of the parser assigns.\<close>

record plivo_fields =
  pFrom :: json
  pTo :: json
  pText :: json
  pMessageUuid :: json
  pMessageType :: jsval

definition wrapStr :: "jstring option \<Rightarrow> json" where
  "wrapStr v = JStr (orEmpty v)"

text \<open>\<open>None\<close> is the \<open>catch\<close> branch of the first \<open>try\<close>: the 400 acknowledgement.\<close>

definition plivoReadFields :: "platform \<Rightarrow> WebhookContext \<Rightarrow> plivo_fields option" where
  "plivoReadFields P ctx =
     (if plivoIsJson ctx
      then (case jsonParse P (rawBody ctx) of
              None \<Rightarrow> None
            | Some b \<Rightarrow>
                (case getProp (Some b) (str ''From'') of
                   Inl e \<Rightarrow> None
                 | Inr f \<Rightarrow>
                     Some \<lparr>pFrom = orDefault P f (JStr []),
                           pTo = orDefault P (optProp (Some b) (str ''To'')) (JStr []),
                           pText = orDefault P (optProp (Some b) (str ''Text'')) (JStr []),
                           pMessageUuid =
                             orDefault P (optProp (Some b) (str ''MessageUUID'')) (JStr []),
                           pMessageType = optProp (Some b) (str ''Type'')\<rparr>))
      else
        let params = urlSearchParams P (rawBody ctx)
        in Some \<lparr>pFrom = wrapStr (paramsGet params (str ''From'')),
                 pTo = wrapStr (paramsGet params (str ''To'')),
                 pText = wrapStr (paramsGet params (str ''Text'')),
                 pMessageUuid = wrapStr (paramsGet params (str ''MessageUUID'')),
                 pMessageType =
                   map_option JStr (orStr (paramsGet params (str ''Type'')) None)\<rparr>)"

text \<open>The \<open>status\<close> variable of the delivery-report branch.\<close>

definition plivoStatusValue :: "platform \<Rightarrow> WebhookContext \<Rightarrow> json" where
  "plivoStatusValue P ctx =
     (if plivoIsJson ctx
      then (case jsonParse P (rawBody ctx) of
              None \<Rightarrow> JStr (str ''unknown'')
            | Some b \<Rightarrow>
                (case getProp (Some b) (str ''Status'') of
                   Inl e \<Rightarrow> JStr (str ''unknown'')
                 | Inr v \<Rightarrow> orDefault P v (JStr (str ''unknown''))))
      else
        JStr (orEmpty (orStr (paramsGet (urlSearchParams P (rawBody ctx)) (str ''Status''))
                        (Some (str ''unknown'')))))"

text \<open>\<open>raw.split(",").map((u) => u.trim()).filter(Boolean)\<close>\<close>

definition plivoSplitMedia :: "jstring \<Rightarrow> jstring list" where
  "plivoSplitMedia raw = filter (\<lambda>u. u \<noteq> []) (map trim (splitOn 0x2C raw))"

text \<open>The \<open>mediaUrls\<close> variable of the inbound branch (\<open>None\<close> is \<open>undefined\<close>).\<close>

definition plivoMediaUrls :: "platform \<Rightarrow> WebhookContext \<Rightarrow> jstring list option" where
  "plivoMediaUrls P ctx =
     (if plivoIsJson ctx
      then (case jsonParse P (rawBody ctx) of
              None \<Rightarrow> None
            | Some b \<Rightarrow>
                (case getProp (Some b) (str ''MediaUrls'') of
                   Inl e \<Rightarrow> None
                 | Inr None \<Rightarrow> None
                 | Inr (Some m) \<Rightarrow>
                     if truthyJson P m then Some (plivoSplitMedia (stringOf P m)) else None))
      else
        (case paramsGet (urlSearchParams P (rawBody ctx)) (str ''MediaUrls'') of
           None \<Rightarrow> None
         | Some rawMedia \<Rightarrow>
             if rawMedia \<noteq> [] then Some (plivoSplitMedia rawMedia) else None))"

definition plivoAckHeaders :: "(jstring \<times> jstring) list" where
  "plivoAckHeaders = [(str ''Content-Type'', str ''application/xml'')]"

text \<open>
  \<open>clock k\<close> is the reading of the \<open>k\<close>-th call of \<open>Date.now()\<close> in this run of the parser
  (the first call is \<open>clock 0\<close>). The inbound branch calls it for the synthesized message
  id, when there is no \<open>MessageUUID\<close>, and then for the timestamp.
\<close>

definition plivoParseInboundSms ::
  "platform \<Rightarrow> WebhookContext \<Rightarrow> (nat \<Rightarrow> int) \<Rightarrow> js_error + json InboundSmsParseResult"
where
  "plivoParseInboundSms P ctx clock =
     (case plivoReadFields P ctx of
        None \<Rightarrow> Inr \<lparr>events = [], statusCode = Some 400,
                       responseBody = Some (str ''Invalid JSON''), responseHeaders = None\<rparr>
      | Some f \<Rightarrow>
          if pMessageType f = Some (JStr (str ''dlr''))
             \<or> (\<not> truthyJson P (pText f) \<and> truthyJson P (pMessageUuid f))
          then
            (case mapPlivoStatusValue P (plivoStatusValue P ctx) of
               Inl e \<Rightarrow> Inl e
             | Inr st \<Rightarrow>
                 Inr \<lparr>events = [DeliveryStatus (pMessageUuid f) st None None (clock 0)],
                      statusCode = Some 200,
                      responseBody = Some (str ''<Response></Response>''),
                      responseHeaders = Some plivoAckHeaders\<rparr>)
          else if \<not> truthyJson P (pMessageUuid f) \<and> \<not> truthyJson P (pText f)
          then Inr \<lparr>events = [], statusCode = Some 200,
                     responseBody = Some (str ''<Response></Response>''),
                     responseHeaders = None\<rparr>
          else
            let media = plivoMediaUrls P ctx;
                synthesized = \<not> truthyJson P (pMessageUuid f)
            in Inr \<lparr>events =
                 [InboundSms
                    (if synthesized then JStr (str ''plivo-'' @ showInt (clock 0))
                     else pMessageUuid f)
                    (pFrom f) (pTo f) (pText f)
                    (if synthesized then clock 1 else clock 0)
                    (case media of
                       None \<Rightarrow> None
                     | Some ms \<Rightarrow> if ms \<noteq> [] then Some (map JStr ms) else None)
                    None],
                 statusCode = Some 200,
                 responseBody = Some (str ''<Response></Response>''),
                 responseHeaders = Some plivoAckHeaders\<rparr>)"

section \<open>providers/mock.ts\<close>

definition mockVerifyWebhook :: "WebhookContext \<Rightarrow> WebhookVerificationResult" where
  "mockVerifyWebhook ctx = VerifyOk"

text \<open>
  The whole body of the parser is inside \<open>try\<close>: a body that does not parse, and the body
  \<open>null\<close> (whose first property read throws), both end in the \<open>catch\<close> branch.
\<close>

definition mockParseInboundSms ::
  "platform \<Rightarrow> WebhookContext \<Rightarrow> (nat \<Rightarrow> int) \<Rightarrow> json InboundSmsParseResult"
where
  "mockParseInboundSms P ctx clock =
     (case (case jsonParse P (rawBody ctx) of
              None \<Rightarrow> None
            | Some b \<Rightarrow> (case getProp (Some b) (str ''messageId'') of
                           Inl e \<Rightarrow> None
                         | Inr mid \<Rightarrow> Some (b, mid))) of
        None \<Rightarrow> \<lparr>events = [], statusCode = Some 200, responseBody = Some (str ''OK''),
                   responseHeaders = None\<rparr>
      | Some (b, mid) \<Rightarrow>
          let synthesized = \<not> truthy P mid
          in \<lparr>events =
               [InboundSms
                  (if synthesized then JStr (str ''mock-'' @ showInt (clock 0))
                   else orDefault P mid (JStr []))
                  (orDefault P (optProp (Some b) (str ''from'')) (JStr (str ''+15550000000'')))
                  (orDefault P (optProp (Some b) (str ''to'')) (JStr (str ''+15550000001'')))
                  (orDefault P
                     (orVal P (optProp (Some b) (str ''body'')) (optProp (Some b) (str ''text'')))
                     (JStr []))
                  (if synthesized then clock 1 else clock 0)
                  None None],
              statusCode = Some 200, responseBody = Some (str ''OK''),
              responseHeaders = None\<rparr>)"

section \<open>The provider interface, and webhook.ts\<close>

datatype TelephonyProvider =
    TwilioProvider TwilioProviderOptions
  | TelnyxProvider TelnyxProviderOptions
  | PlivoProvider PlivoProviderOptions
  | MockProvider

definition providerName :: "TelephonyProvider \<Rightarrow> ProviderName" where
  "providerName p =
     (case p of TwilioProvider opts \<Rightarrow> twilio | TelnyxProvider opts \<Rightarrow> telnyx
      | PlivoProvider opts \<Rightarrow> plivo | MockProvider \<Rightarrow> mock)"

definition nameString :: "ProviderName \<Rightarrow> jstring" where
  "nameString n =
     (case n of twilio \<Rightarrow> str ''twilio'' | telnyx \<Rightarrow> str ''telnyx''
      | plivo \<Rightarrow> str ''plivo'' | mock \<Rightarrow> str ''mock'')"

text \<open>\<open>provider.verifyWebhook(ctx)\<close>; \<open>now\<close> is what \<open>Date.now()\<close> returns if it is called.\<close>

definition verifyWebhook ::
  "platform \<Rightarrow> TelephonyProvider \<Rightarrow> WebhookContext \<Rightarrow> int
     \<Rightarrow> js_error + WebhookVerificationResult"
where
  "verifyWebhook P p ctx now =
     (case p of
        TwilioProvider opts \<Rightarrow> twilioVerifyWebhook P opts ctx
      | TelnyxProvider opts \<Rightarrow> telnyxVerifyWebhook P opts ctx now
      | PlivoProvider opts \<Rightarrow> plivoVerifyWebhook P opts ctx
      | MockProvider \<Rightarrow> Inr (mockVerifyWebhook ctx))"

text \<open>
  \<open>provider.parseInboundSms(ctx)\<close>, with the Twilio adapter's string fields seen as
  values. \<open>None\<close> is the call that does not return, \<open>Some (Inl e)\<close> the one that throws.
\<close>

definition liftResult :: "jstring InboundSmsParseResult \<Rightarrow> json InboundSmsParseResult" where
  "liftResult r =
     \<lparr>events = map (map_NormalizedSmsEvent JStr) (events r), statusCode = statusCode r,
      responseBody = responseBody r, responseHeaders = responseHeaders r\<rparr>"

definition parseInboundSms ::
  "platform \<Rightarrow> TelephonyProvider \<Rightarrow> WebhookContext \<Rightarrow> (nat \<Rightarrow> int)
     \<Rightarrow> (js_error + json InboundSmsParseResult) option"
where
  "parseInboundSms P p ctx clock =
     (case p of
        TwilioProvider opts \<Rightarrow>
          map_option (\<lambda>r. Inr (liftResult r)) (twilioParseInboundSms P ctx clock)
      | TelnyxProvider opts \<Rightarrow> Some (telnyxParseInboundSms P ctx clock)
      | PlivoProvider opts \<Rightarrow> Some (plivoParseInboundSms P ctx clock)
      | MockProvider \<Rightarrow> Some (Inr (mockParseInboundSms P ctx clock)))"

text \<open>
  What reading the request body ends in: the text, the size limit (\<open>"Request body too
  large"\<close>), or another rejection (the read timeout, a stream error).
\<close>

datatype body_read = BodyText jstring | BodyTooLarge | BodyFailed

record http_request =
  reqMethod :: "jstring option"
  reqUrl :: "jstring option"
  reqHost :: "jstring option"
  reqHeaders :: "jstring \<Rightarrow> header_value option"
  reqBody :: body_read
  reqRemoteAddress :: "jstring option"

text \<open>
  The response written, and the events handed to \<open>onEvent\<close> before it, in order (an
  exception of the handler is caught and logged, and changes neither).
\<close>

record http_response =
  resStatus :: nat
  resBody :: jstring
  resHeaders :: "(jstring \<times> jstring) list"
  dispatched :: "json NormalizedSmsEvent list"

definition plainResponse :: "nat \<Rightarrow> jstring \<Rightarrow> http_response" where
  "plainResponse code b = \<lparr>resStatus = code, resBody = b, resHeaders = [], dispatched = []\<rparr>"

text \<open>An \<open>undefined\<close> interpolated into a template string reads \<open>undefined\<close>.\<close>

definition interpolate :: "jstring option \<Rightarrow> jstring" where
  "interpolate v = (case v of None \<Rightarrow> str ''undefined'' | Some s \<Rightarrow> s)"

text \<open>
  \<open>handleRequest\<close>. \<open>Inl\<close> is the rejected promise, which \<open>start\<close> answers with 500.
  \<open>now\<close> is the clock reading of the verifier, \<open>clock\<close> the readings of the parser.
\<close>

definition handleRequest ::
  "platform \<Rightarrow> TelephonyProvider \<Rightarrow> http_request \<Rightarrow> jstring \<Rightarrow> jstring \<Rightarrow> int
     \<Rightarrow> (nat \<Rightarrow> int) \<Rightarrow> (js_error + http_response) option"
where
  "handleRequest P provider req webhookPath statusPath now clock =
     (case newURL P (if truthyStr (reqUrl req) then orEmpty (reqUrl req) else str ''/'')
             (Some (str ''http://'' @ interpolate (reqHost req))) of
        None \<Rightarrow> Some (Inl TypeError)
      | Some u \<Rightarrow>
          if pathname u = str ''/health'' \<and> reqMethod req = Some (str ''GET'')
          then Some (Inr (plainResponse 200
                 (str ''{\"ok\":true,\"provider\":\"'' @ nameString (providerName provider)
                    @ str ''\"}'')))
          else if reqMethod req \<noteq> Some (str ''POST'')
          then Some (Inr (plainResponse 405 (str ''Method Not Allowed'')))
          else if \<not> startsWith (pathname u) webhookPath
                  \<and> \<not> startsWith (pathname u) statusPath
          then Some (Inr (plainResponse 404 (str ''Not Found'')))
          else
            (case reqBody req of
               BodyTooLarge \<Rightarrow> Some (Inr (plainResponse 413 (str ''Payload Too Large'')))
             | BodyFailed \<Rightarrow> Some (Inl OtherError)
             | BodyText b \<Rightarrow>
                 let ctx = \<lparr>headers = reqHeaders req, rawBody = b,
                            url = str ''http://'' @ interpolate (reqHost req)
                                    @ interpolate (reqUrl req),
                            httpMethod = str ''POST'', query = searchParams u,
                            remoteAddress = reqRemoteAddress req\<rparr>
                 in (case verifyWebhook P provider ctx now of
                       Inl e \<Rightarrow> Some (Inl e)
                     | Inr (VerifyFailed r) \<Rightarrow>
                         Some (Inr (plainResponse 401 (str ''Unauthorized'')))
                     | Inr VerifyOk \<Rightarrow>
                         (case parseInboundSms P provider ctx clock of
                            None \<Rightarrow> None
                          | Some (Inl e) \<Rightarrow> Some (Inl e)
                          | Some (Inr result) \<Rightarrow>
                              Some (Inr \<lparr>resStatus =
                                     (case statusCode result of
                                        None \<Rightarrow> 200
                                      | Some c \<Rightarrow> if c = 0 then 200 else c),
                                   resBody =
                                     (if truthyStr (responseBody result)
                                      then orEmpty (responseBody result) else str ''OK''),
                                   resHeaders =
                                     (case responseHeaders result of
                                        None \<Rightarrow> [] | Some hs \<Rightarrow> hs),
                                   dispatched = events result\<rparr>)))))"

text \<open>
  The \<open>catch\<close> of \<open>start\<close>: a rejection is answered with 500. A handler that does not
  return answers nothing: \<open>None\<close>.
\<close>

definition serve ::
  "platform \<Rightarrow> TelephonyProvider \<Rightarrow> http_request \<Rightarrow> jstring \<Rightarrow> jstring \<Rightarrow> int
     \<Rightarrow> (nat \<Rightarrow> int) \<Rightarrow> http_response option"
where
  "serve P provider req webhookPath statusPath now clock =
     (case handleRequest P provider req webhookPath statusPath now clock of
        None \<Rightarrow> None
      | Some (Inl e) \<Rightarrow> Some (plainResponse 500 (str ''Internal Server Error''))
      | Some (Inr r) \<Rightarrow> Some r)"

section \<open>What of a parse result does not depend on the clock\<close>

text \<open>
  Every event carries \<open>timestamp: Date.now()\<close>. The Plivo and Mock adapters also build the
  \<open>messageId\<close> of an inbound message from \<open>Date.now()\<close>, in the fallbacks
  \<open>messageUuid || `plivo-${Date.now()}`\<close> and \<open>body.messageId || `mock-${Date.now()}`\<close>,
  which are taken when the payload has no truthy message id.
\<close>

definition eraseTimestamp :: "'v NormalizedSmsEvent \<Rightarrow> 'v NormalizedSmsEvent" where
  "eraseTimestamp ev =
     (case ev of
        InboundSms m f t b ts mu ns \<Rightarrow> InboundSms m f t b 0 mu ns
      | DeliveryStatus m s c e ts \<Rightarrow> DeliveryStatus m s c e 0
      | SmsError m c e ts \<Rightarrow> SmsError m c e 0)"

definition eraseInboundId :: "json NormalizedSmsEvent \<Rightarrow> json NormalizedSmsEvent" where
  "eraseInboundId ev =
     (case ev of
        InboundSms m f t b ts mu ns \<Rightarrow> InboundSms JNull f t b ts mu ns
      | DeliveryStatus m s c e ts \<Rightarrow> DeliveryStatus m s c e ts
      | SmsError m c e ts \<Rightarrow> SmsError m c e ts)"

definition eraseTimestamps ::
  "json InboundSmsParseResult \<Rightarrow> json InboundSmsParseResult" where
  "eraseTimestamps r = r\<lparr>events := map eraseTimestamp (events r)\<rparr>"

definition eraseInboundIds ::
  "json InboundSmsParseResult \<Rightarrow> json InboundSmsParseResult" where
  "eraseInboundIds r = r\<lparr>events := map eraseInboundId (events r)\<rparr>"

text \<open>
  The left operand of the two fallbacks is falsy: the payload was read and has no truthy
  \<open>MessageUUID\<close> (Plivo) or \<open>messageId\<close> (Mock). The Twilio and Telnyx adapters have no
  such fallback.
\<close>

definition lacksMessageId :: "platform \<Rightarrow> TelephonyProvider \<Rightarrow> WebhookContext \<Rightarrow> bool" where
  "lacksMessageId P p ctx =
     (case p of
        TwilioProvider opts \<Rightarrow> False
      | TelnyxProvider opts \<Rightarrow> False
      | PlivoProvider opts \<Rightarrow>
          (case plivoReadFields P ctx of
             None \<Rightarrow> False
           | Some f \<Rightarrow> \<not> truthyJson P (pMessageUuid f))
      | MockProvider \<Rightarrow>
          (case jsonParse P (rawBody ctx) of
             None \<Rightarrow> False
           | Some b \<Rightarrow>
               (case getProp (Some b) (str ''messageId'') of
                  Inl e \<Rightarrow> False
                | Inr mid \<Rightarrow> \<not> truthy P mid)))"

section \<open>A platform for concrete evaluations\<close>

text \<open>
  The theorems below hold for every platform. Where a statement is evaluated at one
  request, the library results at that request are fixed by this platform, which answers
  as the runtime does on the inputs used: a form body without \<open>%\<close> or \<open>+\<close> escapes, a
  request target that is a bare path, ASCII status names. Its digests are placeholders of
  the right shape (base64 text of 28 and 44 characters).
\<close>

definition splitPair :: "jstring \<Rightarrow> jstring \<times> jstring" where
  "splitPair s = (takeWhile (\<lambda>u. u \<noteq> 0x3D) s, drop 1 (dropWhile (\<lambda>u. u \<noteq> 0x3D) s))"

definition formPairs :: "jstring \<Rightarrow> (jstring \<times> jstring) list" where
  "formPairs b = map splitPair (filter (\<lambda>p. p \<noteq> []) (splitOn 0x26 b))"

definition asciiLower :: "16 word \<Rightarrow> 16 word" where
  "asciiLower u = (if 0x41 \<le> u \<and> u \<le> 0x5A then u + 0x20 else u)"

definition examplePlatform :: platform where
  "examplePlatform =
     \<lparr>hmacSha1Base64 = (\<lambda>key msg. replicate 27 0x41 @ [0x3D]),
      hmacSha256Base64 = (\<lambda>key msg. replicate 43 0x41 @ [0x3D]),
      ed25519Verify = (\<lambda>key payload signature. Inr True),
      newURL = (\<lambda>input base. Some \<lparr>pathname = input, search = [], searchParams = []\<rparr>),
      urlSearchParams = formPairs,
      jsonParse = (\<lambda>s. None),
      toLowerCase = map asciiLower,
      numberTruthy = (\<lambda>n. True),
      stringOf = (\<lambda>v. [])\<rparr>"

text \<open>A clock that returns the same reading at every call.\<close>

definition constantClock :: "int \<Rightarrow> nat \<Rightarrow> int" where
  "constantClock t k = t"

text \<open>Adapter options, contexts and requests used in the evaluations.\<close>

definition twilioPlain :: TwilioProviderOptions where
  "twilioPlain =
     \<lparr>accountSid = str ''AC'', authToken = str ''token'', messagingServiceSid = None,
      publicUrl = None, skipSignatureVerification = None\<rparr>"

definition telnyxKeyed :: TelnyxProviderOptions where
  "telnyxKeyed =
     \<lparr>apiKey = str ''KEY'', messagingProfileId = None, publicKey = Some (str ''MCowBQYDK2Vw''),
      skipSignatureVerification = None\<rparr>"

definition bareContext :: WebhookContext where
  "bareContext =
     \<lparr>headers = Map.empty, rawBody = [], url = str ''http://localhost/telephony/webhook'',
      httpMethod = str ''POST'', query = [], remoteAddress = None\<rparr>"

definition staleSigned :: WebhookContext where
  "staleSigned =
     \<lparr>headers = [str ''telnyx-signature-ed25519'' \<mapsto> HStr (str ''c2lnbmF0dXJl''),
                 str ''telnyx-timestamp'' \<mapsto> HStr (str ''1000'')],
      rawBody = str ''{}'', url = str ''http://localhost/telephony/webhook'',
      httpMethod = str ''POST'', query = [], remoteAddress = None\<rparr>"

definition staleUnsigned :: WebhookContext where
  "staleUnsigned =
     \<lparr>headers = [str ''telnyx-timestamp'' \<mapsto> HStr (str ''1000'')],
      rawBody = str ''{}'', url = str ''http://localhost/telephony/webhook'',
      httpMethod = str ''POST'', query = [], remoteAddress = None\<rparr>"

text \<open>A signature header of 28 characters, the last of them U+00E9.\<close>

definition latin1Signature :: jstring where
  "latin1Signature = str ''AAAAAAAAAAAAAAAAAAAAAAAAAAA'' @ [0xE9]"

definition latin1Signed :: WebhookContext where
  "latin1Signed =
     \<lparr>headers = [str ''x-twilio-signature'' \<mapsto> HStr latin1Signature],
      rawBody = [], url = str ''https://example.com/telephony/webhook'',
      httpMethod = str ''POST'', query = [], remoteAddress = None\<rparr>"

definition inboundHello :: WebhookContext where
  "inboundHello =
     \<lparr>headers = Map.empty, rawBody = str ''MessageSid=SM1&Body=Hello'',
      url = str ''https://example.com/telephony/webhook'', httpMethod = str ''POST'',
      query = [], remoteAddress = None\<rparr>"



definition plivoPlain :: PlivoProviderOptions where
  "plivoPlain =
     \<lparr>authId = str ''MA'', authToken = str ''token'', skipSignatureVerification = None,
      publicUrl = None\<rparr>"

definition plivoWithUuid :: WebhookContext where
  "plivoWithUuid =
     \<lparr>headers = Map.empty, rawBody = str ''MessageUUID=u1&Text=Hello'',
      url = str ''https://example.com/telephony/webhook'', httpMethod = str ''POST'',
      query = [], remoteAddress = None\<rparr>"

definition plivoWithoutUuid :: WebhookContext where
  "plivoWithoutUuid =
     \<lparr>headers = Map.empty, rawBody = str ''Text=Hello'',
      url = str ''https://example.com/telephony/webhook'', httpMethod = str ''POST'',
      query = [], remoteAddress = None\<rparr>"

text \<open>A clock that advances by one millisecond at every call.\<close>

definition tickingClock :: "int \<Rightarrow> nat \<Rightarrow> int" where
  "tickingClock t k = t + int k"


definition getUnknownPath :: http_request where
  "getUnknownPath =
     \<lparr>reqMethod = Some (str ''GET''), reqUrl = Some (str ''/unknown/path''),
      reqHost = Some (str ''localhost''), reqHeaders = Map.empty, reqBody = BodyText [],
      reqRemoteAddress = None\<rparr>"

section \<open>Properties of the chunker\<close>

subsection \<open>Code points and the GSM-7 test\<close>

lemma codePoints_no_surrogate:
  "\<forall>u\<in>set s. \<not> isHighSurrogate u \<Longrightarrow> codePoints s = map (\<lambda>u. [u]) s"
  by (induction s rule: codePoints.induct) auto

lemma codePoints_snoc:
  "\<not> isLowSurrogate u \<Longrightarrow> codePoints (xs @ [u]) = codePoints xs @ [[u]]"
  by (induction xs rule: codePoints.induct) auto

lemma ellipsis_not_low: "\<not> isLowSurrogate 0x2026"
  by (simp add: isLowSurrogate_def)

lemma ellipsis_not_gsm7:
  "\<not> List.member GSM7_CHARS [0x2026] \<and> \<not> List.member GSM7_EXTENDED [0x2026]"
  by (simp add: GSM7_CHARS_def GSM7_ALPHABET_def GSM7_EXTENDED_def)

lemma isGsm7_ellipsis: "\<not> isGsm7 (xs @ ELLIPSIS)"
  using ellipsis_not_gsm7
  by (simp add: isGsm7_def ELLIPSIS_def codePoints_snoc [OF ellipsis_not_low])

lemma A_member: "List.member GSM7_CHARS [0x41]" "\<not> List.member GSM7_EXTENDED [0x41]"
  by (simp_all add: GSM7_CHARS_def GSM7_ALPHABET_def GSM7_EXTENDED_def)

lemma A_not_high: "\<not> isHighSurrogate 0x41"
  by (simp add: isHighSurrogate_def)

lemma codePoints_A: "codePoints (replicate n 0x41) = replicate n [0x41]"
  using codePoints_no_surrogate [of "replicate n 0x41"] A_not_high by simp

lemma charLen_A: "charLen [0x41] = 1"
  using A_member by (simp add: charLen_def)

lemma isGsm7_A: "isGsm7 (replicate n 0x41)"
  using A_member by (simp add: isGsm7_def codePoints_A list_all_iff)

lemma foldl_charLen_A:
  "foldl (\<lambda>len char. len + charLen char) k (replicate n [0x41]) = k + n"
  by (induction n arbitrary: k) (simp_all add: charLen_A)

lemma gsm7Length_A: "gsm7Length (replicate n 0x41) = n"
  by (simp add: gsm7Length_def codePoints_A foldl_charLen_A)

lemma lastIndexOf_absent: "c \<notin> set xs \<Longrightarrow> lastIndexOf xs c = -1"
  by (induction xs) (auto simp: Let_def)

lemma A_not_space: "\<not> isWhiteSpace 0x41"
  by (simp add: isWhiteSpace_def)

subsection \<open>Splitting a run of one letter\<close>

lemma fitLoop_A:
  "len < limit \<Longrightarrow> limit < len + m \<Longrightarrow>
   fitLoop (replicate m [0x41]) i limit len maxIdx = i + (limit - len)"
proof (induction m arbitrary: i len maxIdx)
  case 0
  then show ?case by simp
next
  case (Suc m)
  show ?case
  proof (cases "Suc len < limit")
    case True
    with Suc.prems have "limit < Suc len + m" by simp
    from Suc.IH [OF True this] Suc.prems show ?thesis
      by (simp add: charLen_A)
  next
    case False
    with Suc.prems have eq: "limit = Suc len" by simp
    with Suc.prems obtain k where "m = Suc k" by (cases m) auto
    with eq show ?thesis by (simp add: charLen_A)
  qed
qed

lemma findSplitPoint_A:
  assumes "0 < limit" "limit < n"
  shows "findSplitPoint (replicate n 0x41) limit True = limit"
proof -
  have fit: "fitLoop (replicate n [0x41]) 0 limit 0 0 = limit"
    using fitLoop_A [of 0 limit n 0 0] assms by simp
  have "(0x20 :: 16 word) \<notin> set (take limit (replicate n 0x41))"
       "(0x0A :: 16 word) \<notin> set (take limit (replicate n 0x41))"
    by (auto dest: in_set_takeD)
  then have "lastIndexOf (take limit (replicate n 0x41)) 0x20 = -1"
            "lastIndexOf (take limit (replicate n 0x41)) 0x0A = -1"
    by (simp_all add: lastIndexOf_absent)
  then show ?thesis
    by (simp add: findSplitPoint_def codePoints_A fit)
qed
lemma trim_A:
  "trimEnd (replicate n 0x41) = replicate n 0x41"
  "trimStart (replicate n 0x41) = replicate n 0x41"
proof -
  show "trimStart (replicate n 0x41) = replicate n 0x41"
    using A_not_space by (cases n) (simp_all add: trimStart_def)
  have "dropWhile isWhiteSpace (replicate n 0x41) = replicate n 0x41"
    using A_not_space by (cases n) simp_all
  then show "trimEnd (replicate n 0x41) = replicate n 0x41"
    by (simp add: trimEnd_def)
qed

lemma splitLoop_A_step:
  assumes "0 < limit" "limit < n"
  shows "splitLoop segs (replicate n 0x41) limit True =
         splitLoop (segs @ [replicate limit 0x41]) (replicate (n - limit) 0x41) limit True"
  using assms
  by (subst splitLoop.simps)
     (simp add: effectiveLen_def gsm7Length_A findSplitPoint_A trim_A min_def)

lemma splitLoop_A_last:
  assumes "0 < n" "n \<le> limit"
  shows "splitLoop segs (replicate n 0x41) limit True = Some (segs @ [replicate n 0x41])"
  using assms
  by (subst splitLoop.simps) (simp add: effectiveLen_def gsm7Length_A)

lemma split_A_153:
  "splitIntoSegments (replicate 320 0x41) 153 True =
     Some [replicate 153 0x41, replicate 153 0x41, replicate 14 0x41]"
  by (simp add: splitIntoSegments_def splitLoop_A_step splitLoop_A_last)

lemma split_A_146:
  "splitIntoSegments (replicate 320 0x41) 146 True =
     Some [replicate 146 0x41, replicate 146 0x41, replicate 28 0x41]"
  by (simp add: splitIntoSegments_def splitLoop_A_step splitLoop_A_last)

lemma showNat_digit: "n < 10 \<Longrightarrow> showNat n = [of_nat (48 + n)]"
  by (simp add: showNat.simps)

lemma upt_3: "[0 ..< 3] = [0, 1, (2::nat)]"
  by (simp add: upt_rec)

lemma numbered_A:
  "k < 10 \<Longrightarrow> addSegmentNumbering (replicate 320 0x41) 153 True k =
     Some [str ''[1/3] '' @ replicate 146 0x41,
           str ''[2/3] '' @ replicate 146 0x41,
           str ''[3/3] '' @ replicate 28 0x41]"
  by (simp add: addSegmentNumbering_def split_A_146 upt_3 numberSegment_def
        showNat_digit str_def)

text \<open>
  \<^bold>\<open>C5.\<close> The text of 320 letters \<open>A\<close>, chunked in \<open>auto\<close> mode with \<open>maxLength\<close> 1600 and
  numbering on, gives exactly three segments, and the \<open>i\<close>-th starts with \<open>[i/3] \<close>: the
  unnumbered pass splits into 153 + 153 + 14, the numbered pass (limit 153 - 7 = 146) into
  146 + 146 + 28.
\<close>

theorem chunkSms_320_A:
  "chunkSms (replicate 320 0x41) \<lparr>mode = Auto, maxLength = 1600, segmentNumbering = True\<rparr> =
     Some [str ''[1/3] '' @ replicate 146 0x41,
           str ''[2/3] '' @ replicate 146 0x41,
           str ''[3/3] '' @ replicate 28 0x41]"
  by (simp add: chunkSms_def isGsm7_A gsm7Length_A GSM7_SINGLE_LIMIT_def
        GSM7_MULTI_LIMIT_def split_A_153 numbered_A)

theorem chunkSms_320_A_witness:
  "map (take 6)
     (the (chunkSms (replicate 320 0x41)
             \<lparr>mode = Auto, maxLength = 1600, segmentNumbering = True\<rparr>)) =
     [str ''[1/3] '', str ''[2/3] '', str ''[3/3] '']"
  using chunkSms_320_A by (simp add: str_def)

subsection \<open>The UCS-2 split always returns\<close>













subsection \<open>One segment, and truncation\<close>

text \<open>
  \<^bold>\<open>C6.\<close> The empty text gives no segment, whatever the options. A text that is not empty,
  is no longer than \<open>maxLength\<close>, and whose effective length (GSM-7 slots if it is
  GSM-7-encodable, code units otherwise) is within the single-SMS limit (160 or 70), comes
  back unchanged as the only segment, with no numbering prefix.
\<close>

theorem chunkSms_single_segment:
  "chunkSms [] opts = Some [] \<and>
   (s \<noteq> [] \<and> int (length s) \<le> maxLength opts
      \<and> (if isGsm7 s then gsm7Length s \<le> GSM7_SINGLE_LIMIT
          else length s \<le> UCS2_SINGLE_LIMIT)
    \<longrightarrow> chunkSms s opts = Some [s])"
  by (simp add: chunkSms_def Let_def)

lemma isGsm7_Hi: "isGsm7 (str ''Hi'')"
  by (simp add: isGsm7_def str_def isHighSurrogate_def GSM7_CHARS_def GSM7_ALPHABET_def)

lemma gsm7Length_Hi: "gsm7Length (str ''Hi'') = 2"
  by (simp add: gsm7Length_def str_def isHighSurrogate_def charLen_def GSM7_EXTENDED_def)

theorem chunkSms_single_segment_witness:
  "chunkSms [] \<lparr>mode = Auto, maxLength = 1600, segmentNumbering = True\<rparr> = Some [] \<and>
   chunkSms (str ''Hi'') \<lparr>mode = Auto, maxLength = 1600, segmentNumbering = True\<rparr>
     = Some [str ''Hi'']"
  using chunkSms_single_segment
    [of "\<lparr>mode = Auto, maxLength = 1600, segmentNumbering = True\<rparr>" "str ''Hi''"]
    isGsm7_Hi gsm7Length_Hi
  by (simp add: GSM7_SINGLE_LIMIT_def str_def)

lemma isGsm7_AB: "isGsm7 (str ''AB'')"
  by (simp add: isGsm7_def str_def isHighSurrogate_def GSM7_CHARS_def GSM7_ALPHABET_def)

lemma gsm7Length_AB: "gsm7Length (str ''AB'') = 2"
  by (simp add: gsm7Length_def str_def isHighSurrogate_def charLen_def GSM7_EXTENDED_def)

theorem chunkSms_single_segment_counterexample:
  "isGsm7 (str ''AB'') \<and> gsm7Length (str ''AB'') \<le> GSM7_SINGLE_LIMIT \<and>
   chunkSms (str ''AB'') \<lparr>mode = Auto, maxLength = 1, segmentNumbering = True\<rparr>
     = Some [[0x41, 0x2026]] \<and>
   chunkSms (str ''AB'') \<lparr>mode = Auto, maxLength = 1, segmentNumbering = True\<rparr>
     \<noteq> Some [str ''AB'']"
proof -
  have t: "slice0 (str ''AB'') 1 @ ELLIPSIS = [0x41, 0x2026]"
    by (simp add: slice0_def str_def ELLIPSIS_def)
  have n: "\<not> isGsm7 [0x41, 0x2026]"
    using isGsm7_ellipsis [of "[0x41]"] by (simp add: ELLIPSIS_def)
  have "chunkSms (str ''AB'') \<lparr>mode = Auto, maxLength = 1, segmentNumbering = True\<rparr>
     = Some [[0x41, 0x2026]]"
    unfolding chunkSms_def using n
    by (simp add: t UCS2_SINGLE_LIMIT_def) (simp add: str_def)
  then show ?thesis
    using isGsm7_AB gsm7Length_AB by (simp add: GSM7_SINGLE_LIMIT_def str_def)
qed



















section \<open>Properties of the status mappings\<close>

lemma MessageStatus_closed:
  "(x :: MessageStatus) \<in> {queued, sending, sent, delivered, undelivered, failed, unknown}"
  by (cases x) simp_all

text \<open>
  \<^bold>\<open>C7.\<close> Each of the four status-mapping functions is total and returns a member of the
  closed set of seven statuses. \<open>mapTwilioStatus\<close> and \<open>mapPlivoStatus\<close> (on the
  lower-cased string) and \<open>mapTelnyxStatus\<close> send every string outside their tables to
  \<open>unknown\<close>; \<open>mapTelnyxSendStatus\<close> sends every status outside its table, and a missing
  one, to \<open>queued\<close>.
\<close>

theorem status_mapping:
  "mapTwilioStatus P s \<in> {queued, sending, sent, delivered, undelivered, failed, unknown} \<and>
   mapPlivoStatus P s \<in> {queued, sending, sent, delivered, undelivered, failed, unknown} \<and>
   mapTelnyxStatus e \<in> {queued, sending, sent, delivered, undelivered, failed, unknown} \<and>
   mapTelnyxSendStatus st \<in> {queued, sending, sent, delivered, undelivered, failed, unknown} \<and>
   (toLowerCase P s \<notin> set [str ''queued'', str ''accepted'', str ''sending'', str ''sent'',
                               str ''delivered'', str ''undelivered'', str ''failed'']
      \<longrightarrow> mapTwilioStatus P s = unknown) \<and>
   (toLowerCase P s \<notin> set [str ''queued'', str ''sent'', str ''delivered'',
                               str ''undelivered'', str ''failed'', str ''rejected'']
      \<longrightarrow> mapPlivoStatus P s = unknown) \<and>
   (e \<notin> set [str ''message.sent'', str ''message.delivered'', str ''message.failed'']
      \<longrightarrow> mapTelnyxStatus e = unknown) \<and>
   (st \<notin> set [Some (str ''queued''), Some (str ''sending''), Some (str ''sent''),
                 Some (str ''delivered'')]
      \<longrightarrow> mapTelnyxSendStatus st = queued)"
proof -
  have "toLowerCase P s \<notin> set [str ''queued'', str ''accepted'', str ''sending'', str ''sent'',
                               str ''delivered'', str ''undelivered'', str ''failed'']
      \<longrightarrow> mapTwilioStatus P s = unknown"
    by (simp add: mapTwilioStatus_def Let_def)
  moreover have "toLowerCase P s \<notin> set [str ''queued'', str ''sent'', str ''delivered'',
                               str ''undelivered'', str ''failed'', str ''rejected'']
      \<longrightarrow> mapPlivoStatus P s = unknown"
    by (simp add: mapPlivoStatus_def Let_def)
  moreover have "e \<notin> set [str ''message.sent'', str ''message.delivered'', str ''message.failed'']
      \<longrightarrow> mapTelnyxStatus e = unknown"
    by (simp add: mapTelnyxStatus_def)
  moreover have "st \<notin> set [Some (str ''queued''), Some (str ''sending''), Some (str ''sent''),
                 Some (str ''delivered'')]
      \<longrightarrow> mapTelnyxSendStatus st = queued"
    by (simp add: mapTelnyxSendStatus_def)
  ultimately show ?thesis
    using MessageStatus_closed by blast
qed

theorem status_mapping_witness:
  "mapTwilioStatus examplePlatform (str ''Bogus'') = unknown \<and>
   mapPlivoStatus examplePlatform (str ''Bogus'') = unknown \<and>
   mapTelnyxStatus (str ''message.finalized'') = unknown \<and>
   mapTelnyxSendStatus (Some (str ''bogus'')) = queued"
  using status_mapping [of examplePlatform "str ''Bogus''" "str ''message.finalized''"
          "Some (str ''bogus'')"]
  by (simp add: examplePlatform_def asciiLower_def str_def)

theorem status_mapping_counterexample:
  "mapTelnyxSendStatus (Some (str ''bogus'')) = queued \<and>
   mapTelnyxSendStatus (Some (str ''bogus'')) \<noteq> unknown"
  by (simp add: mapTelnyxSendStatus_def str_def)

section \<open>Properties of the verifiers\<close>

text \<open>
  \<^bold>\<open>C9.\<close> With \<open>skipSignatureVerification\<close> set to \<open>true\<close>, the Twilio, Telnyx and Plivo
  verifiers accept every context: no header, timestamp or signature is looked at.
\<close>

theorem skip_signature_verification:
  "(TwilioProviderOptions.skipSignatureVerification topts = Some True
      \<longrightarrow> twilioVerifyWebhook P topts ctx = Inr VerifyOk) \<and>
   (TelnyxProviderOptions.skipSignatureVerification xopts = Some True
      \<longrightarrow> telnyxVerifyWebhook P xopts ctx now = Inr VerifyOk) \<and>
   (PlivoProviderOptions.skipSignatureVerification popts = Some True
      \<longrightarrow> plivoVerifyWebhook P popts ctx = Inr VerifyOk)"
  by (simp add: twilioVerifyWebhook_def telnyxVerifyWebhook_def plivoVerifyWebhook_def)

theorem skip_signature_verification_witness:
  "twilioVerifyWebhook examplePlatform
     \<lparr>accountSid = str ''AC'', authToken = str ''t'', messagingServiceSid = None,
      publicUrl = None, skipSignatureVerification = Some True\<rparr> bareContext = Inr VerifyOk \<and>
   telnyxVerifyWebhook examplePlatform
     \<lparr>apiKey = str ''KEY'', messagingProfileId = None, publicKey = None,
      skipSignatureVerification = Some True\<rparr> bareContext 0 = Inr VerifyOk \<and>
   plivoVerifyWebhook examplePlatform
     \<lparr>authId = str ''MA'', authToken = str ''t'', skipSignatureVerification = Some True,
      publicUrl = None\<rparr> bareContext = Inr VerifyOk"
  using skip_signature_verification
    [of "\<lparr>accountSid = str ''AC'', authToken = str ''t'', messagingServiceSid = None,
          publicUrl = None, skipSignatureVerification = Some True\<rparr>"
        examplePlatform bareContext
        "\<lparr>apiKey = str ''KEY'', messagingProfileId = None, publicKey = None,
          skipSignatureVerification = Some True\<rparr>" 0
        "\<lparr>authId = str ''MA'', authToken = str ''t'', skipSignatureVerification = Some True,
          publicUrl = None\<rparr>"]
  by simp

lemma parseInt10_1000: "integerValue (parseInt10 (str ''1000'')) = Some 1000"
  by (simp add: parseInt10_def parseDigits_def digitsValue_def isDigit_def trimStart_def
        isWhiteSpace_def roundToDouble_def integerValue_def str_def)

lemma staleSigned_headers:
  "stringHeader staleSigned (str ''telnyx-signature-ed25519'') = Some (str ''c2lnbmF0dXJl'')"
  "stringHeader staleSigned (str ''telnyx-timestamp'') = Some (str ''1000'')"
  by (simp_all add: stringHeader_def staleSigned_def str_def)

lemma telnyxKeyed_facts:
  "TelnyxProviderOptions.skipSignatureVerification telnyxKeyed \<noteq> Some True"
  "truthyStr (publicKey telnyxKeyed)"
  by (simp_all add: telnyxKeyed_def truthyStr_def str_def)

lemma telnyxStale_integer:
  "integerValue x = Some t \<Longrightarrow> telnyxStale now x \<longleftrightarrow> \<bar>now - t * 1000\<bar> > 300000"
  by (cases x) (auto simp: integerValue_def telnyxStale_def)

text \<open>
  \<^bold>\<open>C4.\<close> With a public key configured, verification not skipped and a signature header
  present, a \<open>telnyx-timestamp\<close> that reads as \<open>t\<close> seconds with \<open>|now - 1000 t| > 300000\<close>
  is rejected with the reason \<open>Webhook timestamp too old\<close>, whatever the Ed25519 check
  \<open>v\<close> would answer: it is not consulted.
\<close>

theorem telnyx_stale_timestamp:
  assumes "TelnyxProviderOptions.skipSignatureVerification opts \<noteq> Some True"
    and "truthyStr (publicKey opts)"
    and "stringHeader ctx (str ''telnyx-signature-ed25519'') = Some sg"
    and "stringHeader ctx (str ''telnyx-timestamp'') = Some ts"
    and "integerValue (parseInt10 ts) = Some t"
    and "\<bar>now - t * 1000\<bar> > 300000"
  shows "telnyxVerifyWebhook (P\<lparr>ed25519Verify := v\<rparr>) opts ctx now =
           Inr (VerifyFailed (str ''Webhook timestamp too old''))"
  using assms by (simp add: telnyxVerifyWebhook_def telnyxStale_integer)

theorem telnyx_stale_timestamp_witness:
  "telnyxVerifyWebhook examplePlatform telnyxKeyed staleSigned 1400000 =
     Inr (VerifyFailed (str ''Webhook timestamp too old''))"
proof -
  have v: "examplePlatform\<lparr>ed25519Verify := ed25519Verify examplePlatform\<rparr> = examplePlatform"
    by simp
  have stale: "\<bar>1400000 - 1000 * 1000\<bar> > (300000 :: int)"
    by simp
  from telnyx_stale_timestamp [OF telnyxKeyed_facts staleSigned_headers parseInt10_1000 stale,
         where P = examplePlatform and v = "ed25519Verify examplePlatform"]
  show ?thesis
    by (simp only: v)
qed

theorem telnyx_stale_timestamp_counterexample:
  "truthyStr (publicKey telnyxKeyed) \<and>
   stringHeader staleUnsigned (str ''telnyx-timestamp'') = Some (str ''1000'') \<and>
   integerValue (parseInt10 (str ''1000'')) = Some 1000
   \<and> \<bar>1400000 - 1000 * 1000\<bar> > (300000 :: int) \<and>
   telnyxVerifyWebhook examplePlatform telnyxKeyed staleUnsigned 1400000 =
     Inr (VerifyFailed (str ''Missing telnyx-signature-ed25519 header''))"
proof -
  have h: "stringHeader staleUnsigned (str ''telnyx-timestamp'') = Some (str ''1000'')"
          "stringHeader staleUnsigned (str ''telnyx-signature-ed25519'') = None"
    by (simp_all add: stringHeader_def staleUnsigned_def str_def)
  have k: "truthyStr (publicKey telnyxKeyed)"
    by (simp add: truthyStr_def telnyxKeyed_def str_def)
  have "telnyxVerifyWebhook examplePlatform telnyxKeyed staleUnsigned 1400000 =
     Inr (VerifyFailed (str ''Missing telnyx-signature-ed25519 header''))"
    using k h(2) by (simp add: telnyxVerifyWebhook_def telnyxKeyed_def)
  with h(1) k parseInt10_1000 show ?thesis
    by simp
qed

lemma ascii_not_surrogate:
  assumes "u < (0x80 :: 16 word)"
  shows "\<not> isHighSurrogate u" "\<not> isLowSurrogate u"
proof -
  have "(0x80 :: 16 word) \<le> 0xD800" "(0x80 :: 16 word) \<le> 0xDC00"
    by simp_all
  with assms have "u < 0xD800" "u < 0xDC00"
    by (auto elim: order.strict_trans2)
  then show "\<not> isHighSurrogate u" "\<not> isLowSurrogate u"
    by (auto simp: isHighSurrogate_def isLowSurrogate_def)
qed

lemma utf8_ascii: "u < 0x80 \<Longrightarrow> utf8CodePoint [u] = [ucast u]"
  using ascii_not_surrogate [of u] by simp

lemma bufferFrom_ascii:
  assumes "\<forall>u\<in>set s. u < 0x80"
  shows "length (bufferFrom s) = length s"
proof -
  from assms have "\<forall>u\<in>set s. \<not> isHighSurrogate u"
    using ascii_not_surrogate by blast
  then have cp: "codePoints s = map (\<lambda>u. [u]) s"
    by (rule codePoints_no_surrogate)
  have "map utf8CodePoint (map (\<lambda>u. [u]) s) = map (\<lambda>u. [ucast u]) s"
    using assms by (simp add: utf8_ascii del: utf8CodePoint.simps)
  then have "bufferFrom s = concat (map (\<lambda>u. [ucast u]) s)"
    by (simp only: bufferFrom_def cp)
  moreover have "length (concat (map (\<lambda>u. [ucast u :: 8 word]) s)) = length s"
    by (induction s) simp_all
  ultimately show ?thesis
    by simp
qed

lemma latin1Signature_length: "length latin1Signature = 28"
  by (simp add: latin1Signature_def str_def)

lemma latin1Signature_bytes: "length (bufferFrom latin1Signature) = 29"
  by (simp add: latin1Signature_def str_def bufferFrom_def isHighSurrogate_def
        isLowSurrogate_def)

lemma exampleDigest: "hmacSha1Base64 examplePlatform k m = str ''AAAAAAAAAAAAAAAAAAAAAAAAAAA=''"
  by (simp add: examplePlatform_def str_def numeral_eq_Suc)

text \<open>
  \<^bold>\<open>C1.\<close> The Twilio verifier compares the lengths of the two strings and then hands their
  UTF-8 bytes to \<open>timingSafeEqual\<close>. The expected signature is base64 text, one byte per
  character; a signature header of the same length in characters but with a character
  outside ASCII has more bytes, and the verifier throws a \<open>RangeError\<close> instead of
  returning \<open>{ok: false}\<close>.
\<close>

theorem twilio_verify_throws:
  assumes "TwilioProviderOptions.skipSignatureVerification opts \<noteq> Some True"
    and "\<not> truthyStr (TwilioProviderOptions.publicUrl opts)"
    and "stringHeader ctx (str ''x-twilio-signature'') = Some sg"
    and "\<forall>u\<in>set (hmacSha1Base64 P (TwilioProviderOptions.authToken opts)
                      (twilioSigningString (url ctx) (urlSearchParams P (rawBody ctx)))). u < 0x80"
    and "length (hmacSha1Base64 P (TwilioProviderOptions.authToken opts)
                   (twilioSigningString (url ctx) (urlSearchParams P (rawBody ctx)))) = length sg"
    and "length (bufferFrom sg) \<noteq> length sg"
  shows "twilioVerifyWebhook P opts ctx = Inl RangeError"
proof -
  let ?expected = "hmacSha1Base64 P (TwilioProviderOptions.authToken opts)
                     (twilioSigningString (url ctx) (urlSearchParams P (rawBody ctx)))"
  have "length (bufferFrom ?expected) = length sg"
    using bufferFrom_ascii [OF assms(4)] assms(5) by simp
  with assms(6) have "timingSafeEqual (bufferFrom ?expected) (bufferFrom sg) = Inl RangeError"
    by (simp add: timingSafeEqual_def)
  with assms(1,2,3,5) show ?thesis
    by (simp add: twilioVerifyWebhook_def signedUrl_def Let_def)
qed

theorem twilio_verify_throws_witness:
  "twilioVerifyWebhook examplePlatform twilioPlain latin1Signed = Inl RangeError"
proof (rule twilio_verify_throws [where sg = latin1Signature])
  show "TwilioProviderOptions.skipSignatureVerification twilioPlain \<noteq> Some True"
    by (simp add: twilioPlain_def)
  show "\<not> truthyStr (TwilioProviderOptions.publicUrl twilioPlain)"
    by (simp add: twilioPlain_def truthyStr_def)
  show "stringHeader latin1Signed (str ''x-twilio-signature'') = Some latin1Signature"
    by (simp add: stringHeader_def latin1Signed_def latin1Signature_def)
  show "\<forall>u\<in>set (hmacSha1Base64 examplePlatform (TwilioProviderOptions.authToken twilioPlain)
                 (twilioSigningString (url latin1Signed)
                    (urlSearchParams examplePlatform (rawBody latin1Signed)))). u < 0x80"
    by (simp add: exampleDigest str_def)
  show "length (hmacSha1Base64 examplePlatform (TwilioProviderOptions.authToken twilioPlain)
                 (twilioSigningString (url latin1Signed)
                    (urlSearchParams examplePlatform (rawBody latin1Signed)))) =
        length latin1Signature"
    by (simp add: exampleDigest latin1Signature_length) (simp add: str_def)
  show "length (bufferFrom latin1Signature) \<noteq> length latin1Signature"
    by (simp add: latin1Signature_bytes latin1Signature_length)
qed

section \<open>Properties of the parsers\<close>

subsection \<open>Numbers and the media loop\<close>

lemma roundToDouble_exact: "n < 2 ^ 53 \<Longrightarrow> roundToDouble n = Some n"
  by (simp add: roundToDouble_def)

lemma roundToDouble_2_53: "roundToDouble (2 ^ 53) = Some (2 ^ 53)"
  by (simp add: roundToDouble_def Let_def bitLength.simps)

lemma roundToDouble_2_53_1: "roundToDouble (2 ^ 53 + 1) = Some (2 ^ 53)"
  by (simp add: roundToDouble_def Let_def bitLength.simps)

lemma increment_rounds:
  assumes "i \<le> 2 ^ 53"
  shows "roundToDouble (i + 1) = Some (increment i)"
proof -
  consider "i + 1 < 2 ^ 53" | "i + 1 = 2 ^ 53" | "i = 2 ^ 53"
    using assms by linarith
  then show ?thesis
  proof cases
    case 1
    then show ?thesis by (simp add: roundToDouble_exact increment_def)
  next
    case 2
    then have "i < 2 ^ 53" by linarith
    with 2 roundToDouble_2_53 show ?thesis by (simp add: increment_def)
  next
    case 3
    with roundToDouble_2_53_1 show ?thesis by (simp add: increment_def)
  qed
qed


lemma twilioMediaLoop_stops:
  "\<not> lessNum i numMedia \<Longrightarrow> twilioMediaLoop params numMedia i acc = Some acc"
  by (subst twilioMediaLoop.simps) simp






lemma parseInt10_0: "parseInt10 (str ''0'') = Num 0"
  by (simp add: parseInt10_def parseDigits_def digitsValue_def isDigit_def trimStart_def
        isWhiteSpace_def roundToDouble_def str_def)

lemma parseInt10_rounds: "parseInt10 (str ''9007199254740993'') = Num 9007199254740992"
  by (simp add: parseInt10_def parseDigits_def digitsValue_def isDigit_def trimStart_def
        isWhiteSpace_def roundToDouble_def Let_def bitLength.simps str_def)





subsection \<open>Classification of a Twilio record\<close>




subsection \<open>Dependence on the clock\<close>

lemma twilio_same_clock:
  "c1 0 = c2 0 \<Longrightarrow> twilioParseInboundSms P ctx c1 = twilioParseInboundSms P ctx c2"
  by (simp add: twilioParseInboundSms_def Let_def split: option.split)

lemma twilio_clock:
  "map_option (\<lambda>r. eraseTimestamps (liftResult r)) (twilioParseInboundSms P ctx c1) =
   map_option (\<lambda>r. eraseTimestamps (liftResult r)) (twilioParseInboundSms P ctx c2)"
  by (simp add: twilioParseInboundSms_def Let_def eraseTimestamps_def liftResult_def
        eraseTimestamp_def split: option.split)

lemma telnyx_clock:
  "map_sum id eraseTimestamps (telnyxParseInboundSms P ctx c1) =
   map_sum id eraseTimestamps (telnyxParseInboundSms P ctx c2)"
  by (simp add: telnyxParseInboundSms_def Let_def eraseTimestamps_def
        eraseTimestamp_def telnyxEmptyAck_def split: option.split sum.split)

lemma telnyx_same_clock:
  "c1 0 = c2 0 \<Longrightarrow> telnyxParseInboundSms P ctx c1 = telnyxParseInboundSms P ctx c2"
  by (simp add: telnyxParseInboundSms_def Let_def split: option.split sum.split)

lemma plivo_clock:
  "\<not> lacksMessageId P (PlivoProvider opts) ctx \<or> c1 0 = c2 0 \<Longrightarrow>
   map_sum id eraseTimestamps (plivoParseInboundSms P ctx c1) =
   map_sum id eraseTimestamps (plivoParseInboundSms P ctx c2)"
  by (auto simp: plivoParseInboundSms_def Let_def eraseTimestamps_def lacksMessageId_def
        eraseTimestamp_def split: option.split sum.split)

lemma plivo_clock_id:
  "map_sum id (eraseInboundIds \<circ> eraseTimestamps) (plivoParseInboundSms P ctx c1) =
   map_sum id (eraseInboundIds \<circ> eraseTimestamps) (plivoParseInboundSms P ctx c2)"
  by (simp add: plivoParseInboundSms_def Let_def eraseTimestamps_def eraseInboundIds_def
        eraseTimestamp_def eraseInboundId_def split: option.split sum.split)

lemma plivo_same_clock:
  "c1 0 = c2 0 \<Longrightarrow> (lacksMessageId P (PlivoProvider opts) ctx \<longrightarrow> c1 1 = c2 1) \<Longrightarrow>
   plivoParseInboundSms P ctx c1 = plivoParseInboundSms P ctx c2"
  by (auto simp: plivoParseInboundSms_def Let_def lacksMessageId_def
        split: option.split sum.split)

lemma mock_clock:
  "\<not> lacksMessageId P MockProvider ctx \<or> c1 0 = c2 0 \<Longrightarrow>
   eraseTimestamps (mockParseInboundSms P ctx c1) =
   eraseTimestamps (mockParseInboundSms P ctx c2)"
  by (auto simp: mockParseInboundSms_def Let_def eraseTimestamps_def lacksMessageId_def
        eraseTimestamp_def split: option.split sum.split prod.split)

lemma mock_clock_id:
  "(eraseInboundIds \<circ> eraseTimestamps) (mockParseInboundSms P ctx c1) =
   (eraseInboundIds \<circ> eraseTimestamps) (mockParseInboundSms P ctx c2)"
  by (simp add: mockParseInboundSms_def Let_def eraseTimestamps_def eraseInboundIds_def
        eraseTimestamp_def eraseInboundId_def split: option.split sum.split prod.split)

lemma mock_same_clock:
  "c1 0 = c2 0 \<Longrightarrow> (lacksMessageId P MockProvider ctx \<longrightarrow> c1 1 = c2 1) \<Longrightarrow>
   mockParseInboundSms P ctx c1 = mockParseInboundSms P ctx c2"
  by (auto simp: mockParseInboundSms_def Let_def lacksMessageId_def
        split: option.split sum.split prod.split)

lemma inboundHello_params:
  "urlSearchParams examplePlatform (rawBody inboundHello) =
     [(str ''MessageSid'', str ''SM1''), (str ''Body'', str ''Hello'')]"
  by (simp add: examplePlatform_def inboundHello_def formPairs_def splitPair_def str_def)

lemma inboundHello_events:
  "map_option events (twilioParseInboundSms examplePlatform inboundHello c) =
     Some [InboundSms (str ''SM1'') [] [] (str ''Hello'') (c 0) None None]"
proof -
  let ?params = "[(str ''MessageSid'', str ''SM1''), (str ''Body'', str ''Hello'')]"
  have "\<not> lessNum 0 (Num 0)"
    by (simp add: lessNum_def)
  then have loop: "twilioMediaLoop ?params (Num 0) 0 [] = Some []"
    by (rule twilioMediaLoop_stops)
  have get:
    "paramsGet ?params (str ''MessageSid'') = Some (str ''SM1'')"
    "paramsGet ?params (str ''Body'') = Some (str ''Hello'')"
    "paramsGet ?params (str ''From'') = None"
    "paramsGet ?params (str ''To'') = None"
    "paramsGet ?params (str ''MessageStatus'') = None"
    "paramsGet ?params (str ''SmsStatus'') = None"
    "paramsGet ?params (str ''NumSegments'') = None"
    "paramsGet ?params (str ''NumMedia'') = None"
    by (simp_all add: paramsGet_def str_def)
  have nonempty: "str ''SM1'' \<noteq> []" "str ''Hello'' \<noteq> []" "str ''0'' \<noteq> []"
    by (simp_all add: str_def)
  show ?thesis
    unfolding twilioParseInboundSms_def inboundHello_params
    by (simp add: get nonempty orStr_def orEmpty_def truthyStr_def parseInt10_0 loop)
qed

lemma plivoWithUuid_fields:
  "plivoReadFields examplePlatform plivoWithUuid =
     Some \<lparr>pFrom = JStr [], pTo = JStr [], pText = JStr (str ''Hello''),
           pMessageUuid = JStr (str ''u1''), pMessageType = None\<rparr>"
  by (simp add: plivoReadFields_def plivoIsJson_def plivoWithUuid_def examplePlatform_def
        formPairs_def splitPair_def paramsGet_def wrapStr_def orEmpty_def orStr_def
        truthyStr_def str_def)

lemma plivoWithoutUuid_fields:
  "plivoReadFields examplePlatform plivoWithoutUuid =
     Some \<lparr>pFrom = JStr [], pTo = JStr [], pText = JStr (str ''Hello''),
           pMessageUuid = JStr [], pMessageType = None\<rparr>"
  by (simp add: plivoReadFields_def plivoIsJson_def plivoWithoutUuid_def examplePlatform_def
        formPairs_def splitPair_def paramsGet_def wrapStr_def orEmpty_def orStr_def
        truthyStr_def str_def)

lemma plivo_lacks:
  "\<not> lacksMessageId examplePlatform (PlivoProvider plivoPlain) plivoWithUuid"
  "lacksMessageId examplePlatform (PlivoProvider plivoPlain) plivoWithoutUuid"
  by (simp_all add: lacksMessageId_def plivoWithUuid_fields plivoWithoutUuid_fields str_def)

lemma showInt_1000: "showInt 1000 = str ''1000''"
  by (simp add: showInt_def showNat.simps str_def)

lemma showInt_2000: "showInt 2000 = str ''2000''"
  by (simp add: showInt_def showNat.simps str_def)

lemma plivoWithoutUuid_media: "plivoMediaUrls examplePlatform plivoWithoutUuid = None"
  by (simp add: plivoMediaUrls_def plivoIsJson_def plivoWithoutUuid_def examplePlatform_def
        formPairs_def splitPair_def paramsGet_def str_def)

lemma plivoWithoutUuid_result:
  "parseInboundSms examplePlatform (PlivoProvider plivoPlain) plivoWithoutUuid c =
     Some (Inr \<lparr>events =
                  [InboundSms (JStr (str ''plivo-'' @ showInt (c 0))) (JStr []) (JStr [])
                     (JStr (str ''Hello'')) (c 1) None None],
                statusCode = Some 200,
                responseBody = Some (str ''<Response></Response>''),
                responseHeaders = Some plivoAckHeaders\<rparr>)"
proof -
  have "str ''Hello'' \<noteq> []"
    by (simp add: str_def)
  then show ?thesis
    by (simp add: parseInboundSms_def plivoParseInboundSms_def plivoWithoutUuid_fields
          plivoWithoutUuid_media)
qed

lemma plivoWithoutUuid_differs:
  "map_option (map_sum id eraseTimestamps)
     (parseInboundSms examplePlatform (PlivoProvider plivoPlain) plivoWithoutUuid
        (tickingClock 1000)) \<noteq>
   map_option (map_sum id eraseTimestamps)
     (parseInboundSms examplePlatform (PlivoProvider plivoPlain) plivoWithoutUuid
        (tickingClock 2000))"
  by (simp add: plivoWithoutUuid_result eraseTimestamps_def eraseTimestamp_def
        tickingClock_def showInt_1000 showInt_2000) (simp add: str_def)

text \<open>
  \<^bold>\<open>C2.\<close> For each adapter, \<open>parseInboundSms\<close> depends on the context and on the readings
  of \<open>Date.now()\<close> it takes, and on nothing else. Two runs on one context are identical when
  their first readings are the same (and their second readings, where the Plivo or Mock
  payload has no message id). Whatever the readings, both runs return or neither does, they
  throw alike, and they agree on the acknowledgement and on every event field but the
  timestamp, provided the payload has a message id or the first readings agree. Where the
  Plivo or Mock payload has no message id, they agree on everything but the timestamp and
  the message id of the inbound event.
\<close>

theorem parse_depends_on_clock_only:
  "(c1 0 = c2 0 \<and> (lacksMessageId P p ctx \<longrightarrow> c1 1 = c2 1)
      \<longrightarrow> parseInboundSms P p ctx c1 = parseInboundSms P p ctx c2) \<and>
   (\<not> lacksMessageId P p ctx \<or> c1 0 = c2 0 \<longrightarrow>
      map_option (map_sum id eraseTimestamps) (parseInboundSms P p ctx c1) =
      map_option (map_sum id eraseTimestamps) (parseInboundSms P p ctx c2)) \<and>
   (lacksMessageId P p ctx \<longrightarrow>
      map_option (map_sum id (eraseInboundIds \<circ> eraseTimestamps))
        (parseInboundSms P p ctx c1) =
      map_option (map_sum id (eraseInboundIds \<circ> eraseTimestamps))
        (parseInboundSms P p ctx c2))"
proof (cases p)
  case (TwilioProvider opts)
  have "map_option (map_sum id eraseTimestamps) (parseInboundSms P p ctx c) =
        map_option Inr (map_option (\<lambda>r. eraseTimestamps (liftResult r))
          (twilioParseInboundSms P ctx c))" for c
    by (simp add: TwilioProvider parseInboundSms_def option.map_comp comp_def)
  with twilio_clock [of P ctx c1 c2] twilio_same_clock [of c1 c2 P ctx] TwilioProvider
  show ?thesis
    by (simp add: parseInboundSms_def lacksMessageId_def)
next
  case (TelnyxProvider opts)
  with telnyx_clock [of P ctx c1 c2] telnyx_same_clock [of c1 c2 P ctx] show ?thesis
    by (simp add: parseInboundSms_def lacksMessageId_def)
next
  case (PlivoProvider opts)
  with plivo_clock [of P opts ctx c1 c2] plivo_clock_id [of P ctx c1 c2]
    plivo_same_clock [of c1 c2 P opts ctx]
  show ?thesis
    by (auto simp: parseInboundSms_def)
next
  case MockProvider
  with mock_clock [of P ctx c1 c2] mock_clock_id [of P ctx c1 c2]
    mock_same_clock [of c1 c2 P ctx]
  show ?thesis
    by (auto simp: parseInboundSms_def)
qed

theorem parse_depends_on_clock_only_witness:
  "\<not> lacksMessageId examplePlatform (PlivoProvider plivoPlain) plivoWithUuid \<and>
   map_option (map_sum id eraseTimestamps)
     (parseInboundSms examplePlatform (PlivoProvider plivoPlain) plivoWithUuid
        (tickingClock 1000)) =
   map_option (map_sum id eraseTimestamps)
     (parseInboundSms examplePlatform (PlivoProvider plivoPlain) plivoWithUuid
        (tickingClock 2000)) \<and>
   lacksMessageId examplePlatform (PlivoProvider plivoPlain) plivoWithoutUuid \<and>
   map_option (map_sum id (eraseInboundIds \<circ> eraseTimestamps))
     (parseInboundSms examplePlatform (PlivoProvider plivoPlain) plivoWithoutUuid
        (tickingClock 1000)) =
   map_option (map_sum id (eraseInboundIds \<circ> eraseTimestamps))
     (parseInboundSms examplePlatform (PlivoProvider plivoPlain) plivoWithoutUuid
        (tickingClock 2000)) \<and>
   map_option (map_sum id eraseTimestamps)
     (parseInboundSms examplePlatform (PlivoProvider plivoPlain) plivoWithoutUuid
        (tickingClock 1000)) \<noteq>
   map_option (map_sum id eraseTimestamps)
     (parseInboundSms examplePlatform (PlivoProvider plivoPlain) plivoWithoutUuid
        (tickingClock 2000))"
  using parse_depends_on_clock_only [of "tickingClock 1000" "tickingClock 2000" examplePlatform
          "PlivoProvider plivoPlain" plivoWithUuid]
        parse_depends_on_clock_only [of "tickingClock 1000" "tickingClock 2000" examplePlatform
          "PlivoProvider plivoPlain" plivoWithoutUuid]
        plivoWithoutUuid_differs
  by (simp add: plivo_lacks)

theorem parse_depends_on_clock_only_counterexample:
  "parseInboundSms examplePlatform (TwilioProvider twilioPlain) inboundHello (constantClock 1000)
     \<noteq> parseInboundSms examplePlatform (TwilioProvider twilioPlain) inboundHello
         (constantClock 1001)"
proof
  assume a: "parseInboundSms examplePlatform (TwilioProvider twilioPlain) inboundHello
            (constantClock 1000) =
          parseInboundSms examplePlatform (TwilioProvider twilioPlain) inboundHello
            (constantClock 1001)"
  from inboundHello_events [of "constantClock 1000"] obtain r1
    where r1: "twilioParseInboundSms examplePlatform inboundHello (constantClock 1000) = Some r1"
      and e1: "events r1 = [InboundSms (str ''SM1'') [] [] (str ''Hello'') 1000 None None]"
    by (auto simp: constantClock_def)
  from inboundHello_events [of "constantClock 1001"] obtain r2
    where r2: "twilioParseInboundSms examplePlatform inboundHello (constantClock 1001) = Some r2"
      and e2: "events r2 = [InboundSms (str ''SM1'') [] [] (str ''Hello'') 1001 None None]"
    by (auto simp: constantClock_def)
  from a r1 r2 have "liftResult r1 = liftResult r2"
    by (simp add: parseInboundSms_def)
  then have "events (liftResult r1) = events (liftResult r2)"
    by simp
  with e1 e2 show False
    by (simp add: liftResult_def)
qed

section \<open>Properties of the ingress server\<close>

lemma getUnknownPath_url:
  "newURL examplePlatform
     (if truthyStr (reqUrl getUnknownPath) then orEmpty (reqUrl getUnknownPath) else str ''/'')
     (Some (str ''http://'' @ interpolate (reqHost getUnknownPath))) =
   Some \<lparr>pathname = str ''/unknown/path'', search = [], searchParams = []\<rparr>"
  by (simp add: examplePlatform_def getUnknownPath_def truthyStr_def orEmpty_def str_def)

text \<open>
  \<^bold>\<open>C8.\<close> Once the request target parses: \<open>GET /health\<close> is answered 200 with the
  provider's name; every other request whose method is not \<open>POST\<close> is answered 405,
  whatever its path; a \<open>POST\<close> whose path starts with neither configured path is answered
  404.
\<close>

theorem ingress_routing:
  assumes "newURL P (if truthyStr (reqUrl req) then orEmpty (reqUrl req) else str ''/'')
             (Some (str ''http://'' @ interpolate (reqHost req))) = Some u"
  shows "(pathname u = str ''/health'' \<and> reqMethod req = Some (str ''GET'')
            \<longrightarrow> handleRequest P provider req webhookPath statusPath now clock =
                  Some (Inr (plainResponse 200
                         (str ''{\"ok\":true,\"provider\":\"'' @ nameString (providerName provider)
                            @ str ''\"}'')))) \<and>
         (\<not> (pathname u = str ''/health'' \<and> reqMethod req = Some (str ''GET''))
            \<and> reqMethod req \<noteq> Some (str ''POST'')
            \<longrightarrow> handleRequest P provider req webhookPath statusPath now clock =
                  Some (Inr (plainResponse 405 (str ''Method Not Allowed'')))) \<and>
         (reqMethod req = Some (str ''POST'')
            \<and> \<not> startsWith (pathname u) webhookPath \<and> \<not> startsWith (pathname u) statusPath
            \<longrightarrow> handleRequest P provider req webhookPath statusPath now clock =
                  Some (Inr (plainResponse 404 (str ''Not Found''))))"
proof -
  have post_not_get: "Some (str ''POST'') \<noteq> Some (str ''GET'')"
    by (simp add: str_def)
  show ?thesis
    using assms post_not_get by (auto simp: handleRequest_def)
qed

theorem ingress_routing_witness:
  "handleRequest examplePlatform MockProvider getUnknownPath (str ''/telephony/webhook'')
     (str ''/telephony/status'') 0 (constantClock 0) =
   Some (Inr (plainResponse 405 (str ''Method Not Allowed'')))"
  using ingress_routing [OF getUnknownPath_url, of MockProvider "str ''/telephony/webhook''"
          "str ''/telephony/status''" 0 "constantClock 0"]
  by (simp add: getUnknownPath_def str_def)

theorem ingress_routing_counterexample:
  "pathname \<lparr>pathname = str ''/unknown/path'', search = [], searchParams = []\<rparr> \<noteq> str ''/health''
   \<and> \<not> startsWith (str ''/unknown/path'') (str ''/telephony/webhook'')
   \<and> \<not> startsWith (str ''/unknown/path'') (str ''/telephony/status'')
   \<and> map_option (map_sum id resStatus)
        (handleRequest examplePlatform MockProvider getUnknownPath (str ''/telephony/webhook'')
           (str ''/telephony/status'') 0 (constantClock 0)) = Some (Inr 405)"
proof -
  have m: "reqMethod getUnknownPath \<noteq> Some (str ''POST'')"
    by (simp add: getUnknownPath_def str_def)
  have "handleRequest examplePlatform MockProvider getUnknownPath (str ''/telephony/webhook'')
           (str ''/telephony/status'') 0 (constantClock 0) =
        Some (Inr (plainResponse 405 (str ''Method Not Allowed'')))"
    unfolding handleRequest_def getUnknownPath_url using m
    by (simp add: str_def)
  then show ?thesis
    by (simp add: plainResponse_def startsWith_def str_def)
qed

end
